theory Spec2Isabelle
  imports Complex_Main
begin

section \<open>Python values, exceptions and outcomes\<close>

text \<open>
  The module \<open>cell_components.py\<close> is arithmetic over Python floats. Floats are
  modelled as exact reals: rounding, overflow to infinity and NaN are outside the
  model, so an equation proved here is the exact-arithmetic statement of the formula.
  What is kept of Python is everything that changes the control flow: a missing
  dictionary key raises \<open>KeyError\<close>, subscripting \<open>None\<close> or a number raises
  \<open>TypeError\<close>, and a division by zero raises \<open>ZeroDivisionError\<close>.
\<close>

datatype error = KeyError string | TypeError | ZeroDivisionError

datatype pyval = PyNone | Num real | Dict "(string \<times> pyval) list"

text \<open>\<open>d[k]\<close> on a value of the material table.\<close>

fun subscript :: "pyval \<Rightarrow> string \<Rightarrow> error + pyval" where
  "subscript (Dict kvs) k = (case map_of kvs k of None \<Rightarrow> Inl (KeyError k) | Some v \<Rightarrow> Inr v)"
| "subscript PyNone k = Inl TypeError"
| "subscript (Num x) k = Inl TypeError"

text \<open>\<open>d.get(k)\<close>: \<open>None\<close> for an absent key, no exception.\<close>

fun dict_get :: "pyval \<Rightarrow> string \<Rightarrow> error + pyval" where
  "dict_get (Dict kvs) k = (case map_of kvs k of None \<Rightarrow> Inr PyNone | Some v \<Rightarrow> Inr v)"
| "dict_get PyNone k = Inl TypeError"
| "dict_get (Num x) k = Inl TypeError"

text \<open>A table value used as a number in arithmetic.\<close>

fun num :: "pyval \<Rightarrow> error + real" where
  "num (Num x) = Inr x"
| "num PyNone = Inl TypeError"
| "num (Dict kvs) = Inl TypeError"

text \<open>\<open>m[k]\<close> on a \<open>Dict[str, float]\<close> such as \<open>mass_ratio\<close>.\<close>

definition getitem :: "(string \<rightharpoonup> real) \<Rightarrow> string \<Rightarrow> error + real" where
  "getitem m k = (case m k of None \<Rightarrow> Inl (KeyError k) | Some v \<Rightarrow> Inr v)"

text \<open>Float division \<open>a / b\<close>.\<close>

definition py_div :: "real \<Rightarrow> real \<Rightarrow> error + real" where
  "py_div a b = (if b = 0 then Inl ZeroDivisionError else Inr (a / b))"

text \<open>\<open>min(a, b)\<close>: the first argument unless the second is strictly smaller.\<close>

definition py_min :: "real \<Rightarrow> real \<Rightarrow> real" where
  "py_min a b = (if b < a then b else a)"

text \<open>Sequencing of two computations that may raise.\<close>

definition bind :: "error + 'a \<Rightarrow> ('a \<Rightarrow> error + 'b) \<Rightarrow> error + 'b" where
  "bind r f = (case r of Inl e \<Rightarrow> Inl e | Inr x \<Rightarrow> f x)"

text \<open>
  A method that mutates objects the caller still holds either returns, leaving a state,
  or raises, leaving the state reached at the raise.
\<close>

datatype 's outcome = Done 's | Raised error 's

fun final :: "'s outcome \<Rightarrow> 's" where
  "final (Done s) = s"
| "final (Raised e s) = s"

fun raised :: "'s outcome \<Rightarrow> error option" where
  "raised (Done s) = None"
| "raised (Raised e s) = Some e"

section \<open>The material table\<close>

definition materials :: pyval where
  "materials = Dict [
     (''Cu'', Dict [(''density'', Num 8.94), (''thickness'', Num 6)]),
     (''Al'', Dict [(''density'', Num 2.7), (''thickness'', Num 16)]),
     (''Prussian Blue'', Dict [(''density'', Num 1.8), (''capacity'', Num 150), (''voltage'', Num 3.2)]),
     (''Hard Carbon'', Dict [(''capacity'', Num 300), (''voltage'', Num 0.1), (''density'', Num 1.6)]),
     (''SuperP'', Dict [(''density'', Num 1.9)]),
     (''PVDF'', Dict [(''density'', Num 1.78)]),
     (''CMC+SBR'', Dict [(''density'', Num ((1.6 + 0.96) / 2))]),
     (''Celgard 2325'', Dict [(''thickness'', Num 25), (''porosity'', Num 0.41), (''density'', Num 0.74)]),
     (''pouch'', Dict [(''thickness'', Num 113), (''density'', Num 1.62),
                      (''extra_width'', Num 0.9), (''extra_height'', Num 2)]),
     (''tabs'', Dict [(''Al'', Dict [(''density'', Num 2.7)])]),
     (''electrolytes'', Dict [(''NaPF6 in diglyme'', Dict [(''density'', Num 1.15)])])]"

text \<open>\<open>materials[name]['density']\<close>, read as a number.\<close>

definition materials_density :: "string \<Rightarrow> error + real" where
  "materials_density name =
     bind (subscript materials name) (\<lambda>m. bind (subscript m ''density'') num)"

text \<open>\<open>materials.get(name)['density']\<close>, read as a number.\<close>

definition materials_get_density :: "string \<Rightarrow> error + real" where
  "materials_get_density name =
     bind (dict_get materials name) (\<lambda>m. bind (subscript m ''density'') num)"

section \<open>Component records\<close>

text \<open>
  \<open>density\<close> and \<open>areal_capacity\<close> of an electrode are assigned by
  \<open>__post_init__\<close>, so every electrode that exists has them.
\<close>

record Electrode =
  active_material :: string
  mass_ratio :: "string \<rightharpoonup> real"
  binder_material :: string  \<comment> \<open>the field \<open>binder\<close> of the source\<close>
  porosity :: real
  voltage :: real
  capacity :: real
  density_am :: real
  width :: real
  height :: real
  cc_thickness :: real
  current_collector :: string
  thickness :: real
  tab_height :: real
  tab_width :: real
  density :: real
  areal_capacity :: real

record Separator =
  material :: string
  width :: real
  height :: real
  thickness :: real
  porosity :: real
  density :: real

text \<open>
  \<open>volume\<close> and \<open>volume_per_ah\<close> are declared \<open>field(init=False)\<close> and the
  class has no \<open>__post_init__\<close>: they are unset (\<open>None\<close> here) until a cell assigns them.
\<close>

record Electrolyte =
  material :: string
  density :: real
  volume_excess :: real
  volume :: "real option"
  volume_per_ah :: "real option"

record Pouch =
  width :: real
  height :: real
  thickness :: real
  density :: real

record Tab =
  material_cathode :: string
  material_anode :: string
  height :: real
  width :: real
  thickness :: real
  density_cathode :: real
  density_anode :: real

text \<open>
  A cell holds references to its two electrodes: Python passes objects by reference,
  the cell writes to its anode, and nothing prevents the same electrode object from
  being given as cathode and as anode. The electrodes therefore live in a store. The
  other components are of pairwise different classes, so they cannot alias each other
  and are held by value; the electrolyte, which the cell also writes to, is read back
  from the cell. The six result fields are unset until \<open>__post_init__\<close> assigns them.
\<close>

type_synonym ref = nat

type_synonym heap = "ref \<Rightarrow> Electrode"

record Cell =
  cathode :: ref
  anode :: ref
  separator :: Separator
  electrolyte :: Electrolyte
  format :: Pouch
  tabs :: Tab
  layers_number :: int
  n_p_ratio :: real
  ice :: real
  volumetric_energy_density :: "real option"
  gravimetric_energy_density :: "real option"
  energy :: "real option"
  capacity :: "real option"
  total_mass :: "real option"
  total_volume :: "real option"

section \<open>Electrode\<close>

definition calculate_composite_density :: "Electrode \<Rightarrow> error + Electrode" where
  "calculate_composite_density e =
     bind (getitem (mass_ratio e) ''am'') (\<lambda>m_am.
     bind (py_div m_am (density_am e)) (\<lambda>v_am.
     bind (getitem (mass_ratio e) ''carbon'') (\<lambda>m_carbon.
     bind (materials_density ''SuperP'') (\<lambda>d_carbon.
     bind (py_div m_carbon d_carbon) (\<lambda>v_carbon.
     bind (getitem (mass_ratio e) ''binder'') (\<lambda>m_binder.
     bind (materials_density (binder_material e)) (\<lambda>d_binder.
     bind (py_div m_binder d_binder) (\<lambda>v_binder.
     bind (py_div v_am (0 + v_am + v_carbon + v_binder)) (\<lambda>r_am.
     bind (py_div v_carbon (0 + v_am + v_carbon + v_binder)) (\<lambda>r_carbon.
     bind (py_div v_binder (0 + v_am + v_carbon + v_binder)) (\<lambda>r_binder.
       Inr (e\<lparr>Electrode.density :=
              (1 - Electrode.porosity e) *
              (r_am * density_am e + r_carbon * d_carbon + r_binder * d_binder)\<rparr>))))))))))))"

definition calculate_areal_capacity :: "Electrode \<Rightarrow> error + Electrode" where
  "calculate_areal_capacity e =
     bind (getitem (mass_ratio e) ''am'') (\<lambda>m_am.
       Inr (e\<lparr>areal_capacity :=
              Electrode.density e * Electrode.thickness e * Electrode.capacity e * m_am\<rparr>))"

definition Electrode_post_init :: "Electrode \<Rightarrow> error + Electrode" where
  "Electrode_post_init e = bind (calculate_composite_density e) calculate_areal_capacity"

text \<open>
  The generated \<open>__init__\<close>: the fourteen arguments are stored and \<open>__post_init__\<close>
  runs. Before it runs the two derived fields do not exist; the record needs some value
  there, and \<open>Electrode_post_init_fresh\<close> below shows that the value is never read.
\<close>

definition Electrode_init ::
  "string \<Rightarrow> (string \<rightharpoonup> real) \<Rightarrow> string \<Rightarrow> real \<Rightarrow> real \<Rightarrow> real \<Rightarrow> real \<Rightarrow> real \<Rightarrow> real \<Rightarrow> real
     \<Rightarrow> string \<Rightarrow> real \<Rightarrow> real \<Rightarrow> real \<Rightarrow> error + Electrode" where
  "Electrode_init am mr b p v cap dam w hgt cct cc th tabh tabw =
     Electrode_post_init
       \<lparr>active_material = am, mass_ratio = mr, binder_material = b, Electrode.porosity = p,
        voltage = v, Electrode.capacity = cap, density_am = dam, Electrode.width = w,
        Electrode.height = hgt, cc_thickness = cct, current_collector = cc,
        Electrode.thickness = th, tab_height = tabh, tab_width = tabw,
        Electrode.density = 0, areal_capacity = 0\<rparr>"

section \<open>Tab\<close>

definition Tab_post_init :: "Tab \<Rightarrow> error + Tab" where
  "Tab_post_init t =
     bind (materials_get_density (material_cathode t)) (\<lambda>dc.
     bind (materials_get_density (material_anode t)) (\<lambda>da.
       Inr (t\<lparr>density_cathode := dc, density_anode := da\<rparr>)))"

section \<open>Cell: anode sizing\<close>

definition calculate_anode_properties :: "Cell \<Rightarrow> heap \<Rightarrow> heap outcome" where
  "calculate_anode_properties c h =
     (let required_anode_capacity = areal_capacity (h (cathode c)) * n_p_ratio c in
      case bind (getitem (mass_ratio (h (anode c))) ''am'') (\<lambda>m_am.
             py_div required_anode_capacity
               (Electrode.density (h (anode c)) * Electrode.capacity (h (anode c)) * m_am)) of
        Inl e \<Rightarrow> Raised e h
      | Inr t \<Rightarrow>
          (let h1 = h(anode c := (h (anode c))\<lparr>Electrode.thickness := t\<rparr>) in
           case calculate_areal_capacity (h1 (anode c)) of
             Inl e \<Rightarrow> Raised e h1
           | Inr a \<Rightarrow> Done (h1(anode c := a))))"

section \<open>Cell: aggregation\<close>

text \<open>The local variables of \<open>calculate_energy_density\<close>, one definition each.\<close>

definition cathode_volume :: "Cell \<Rightarrow> heap \<Rightarrow> real" where
  "cathode_volume c h =
     Electrode.width (h (cathode c)) * Electrode.height (h (cathode c)) *
     Electrode.thickness (h (cathode c)) * 2 * of_int (layers_number c)"

definition anode_volume :: "Cell \<Rightarrow> heap \<Rightarrow> real" where
  "anode_volume c h =
     Electrode.width (h (anode c)) * Electrode.height (h (anode c)) *
     Electrode.thickness (h (anode c)) * of_int (2 * layers_number c + 2)"

definition separator_volume :: "Cell \<Rightarrow> real" where
  "separator_volume c =
     Separator.width (separator c) * Separator.height (separator c) *
     Separator.thickness (separator c) * 2 * of_int (layers_number c)"

definition pouch_volume :: "Cell \<Rightarrow> real" where
  "pouch_volume c =
     Pouch.width (format c) * Pouch.height (format c) * Pouch.thickness (format c) * 2"

definition anode_cc_volume :: "Cell \<Rightarrow> heap \<Rightarrow> real" where
  "anode_cc_volume c h =
     of_int (layers_number c + 1) *
     (Electrode.width (h (anode c)) * Electrode.height (h (anode c)) +
      tab_height (h (anode c)) + tab_width (h (anode c))) *
     cc_thickness (h (anode c))"

definition cathode_cc_volume :: "Cell \<Rightarrow> heap \<Rightarrow> real" where
  "cathode_cc_volume c h =
     of_int (layers_number c) *
     (Electrode.width (h (cathode c)) * Electrode.height (h (cathode c)) +
      tab_height (h (cathode c)) * tab_width (h (cathode c))) *
     cc_thickness (h (cathode c))"

definition cathode_mass :: "Cell \<Rightarrow> heap \<Rightarrow> real" where
  "cathode_mass c h = cathode_volume c h * Electrode.density (h (cathode c))"

definition anode_mass :: "Cell \<Rightarrow> heap \<Rightarrow> real" where
  "anode_mass c h = anode_volume c h * Electrode.density (h (anode c))"

definition separator_mass :: "Cell \<Rightarrow> real" where
  "separator_mass c = separator_volume c * Separator.density (separator c)"

definition pouch_mass :: "Cell \<Rightarrow> real" where
  "pouch_mass c = pouch_volume c * Pouch.density (format c)"

definition cathode_cc_mass :: "Cell \<Rightarrow> heap \<Rightarrow> real \<Rightarrow> real" where
  "cathode_cc_mass c h cc_density = cathode_cc_volume c h * cc_density"

definition anode_cc_mass :: "Cell \<Rightarrow> heap \<Rightarrow> real \<Rightarrow> real" where
  "anode_cc_mass c h cc_density = anode_cc_volume c h * cc_density"

definition tabs_mass :: "Cell \<Rightarrow> real" where
  "tabs_mass c =
     Tab.height (tabs c) * Tab.width (tabs c) * Tab.thickness (tabs c) *
     (density_cathode (tabs c) + density_anode (tabs c))"

definition cathode_void_volume :: "Cell \<Rightarrow> heap \<Rightarrow> real" where
  "cathode_void_volume c h = cathode_volume c h * Electrode.porosity (h (cathode c))"

definition anode_void_volume :: "Cell \<Rightarrow> heap \<Rightarrow> real" where
  "anode_void_volume c h = anode_volume c h * Electrode.porosity (h (anode c))"

definition separator_void_volume :: "Cell \<Rightarrow> real" where
  "separator_void_volume c = separator_volume c * Separator.porosity (separator c)"

definition total_void_volume :: "Cell \<Rightarrow> heap \<Rightarrow> real" where
  "total_void_volume c h =
     cathode_void_volume c h + anode_void_volume c h + separator_void_volume c"

text \<open>The value assigned to \<open>self.electrolyte.volume\<close>.\<close>

definition electrolyte_volume :: "Cell \<Rightarrow> heap \<Rightarrow> real" where
  "electrolyte_volume c h = total_void_volume c h * (1 + volume_excess (electrolyte c))"

definition electrolyte_mass :: "Cell \<Rightarrow> heap \<Rightarrow> real" where
  "electrolyte_mass c h = electrolyte_volume c h * Electrolyte.density (electrolyte c)"

text \<open>The values assigned to \<open>self.total_mass\<close> and \<open>self.total_volume\<close>.\<close>

definition total_mass_value :: "Cell \<Rightarrow> heap \<Rightarrow> real \<Rightarrow> real \<Rightarrow> real" where
  "total_mass_value c h cathode_cc_density anode_cc_density =
     cathode_mass c h + cathode_cc_mass c h cathode_cc_density + anode_mass c h +
     anode_cc_mass c h anode_cc_density + separator_mass c + pouch_mass c + tabs_mass c +
     electrolyte_mass c h"

definition total_volume_value :: "Cell \<Rightarrow> heap \<Rightarrow> real" where
  "total_volume_value c h =
     cathode_volume c h + anode_volume c h + separator_volume c + pouch_volume c +
     (electrolyte_volume c h - total_void_volume c h) +
     anode_cc_volume c h + cathode_cc_volume c h"

definition cathode_capacity :: "Cell \<Rightarrow> heap \<Rightarrow> real \<Rightarrow> real" where
  "cathode_capacity c h m_am = cathode_mass c h * m_am * Electrode.capacity (h (cathode c)) / 1000"

definition anode_capacity :: "Cell \<Rightarrow> heap \<Rightarrow> real \<Rightarrow> real" where
  "anode_capacity c h m_am = anode_mass c h * m_am * Electrode.capacity (h (anode c)) / 1000"

definition cell_voltage :: "Cell \<Rightarrow> heap \<Rightarrow> real" where
  "cell_voltage c h = voltage (h (cathode c)) - voltage (h (anode c))"

text \<open>
  The method reads the electrodes and writes to the cell and its electrolyte only.
  The assignments are made in the order of the source, so the state left by an
  exception has exactly the fields assigned before the raising line.
\<close>

definition calculate_energy_density :: "Cell \<Rightarrow> heap \<Rightarrow> Cell outcome" where
  "calculate_energy_density c h =
     (case materials_density (current_collector (h (cathode c))) of
        Inl e \<Rightarrow> Raised e c
      | Inr cathode_cc_density \<Rightarrow>
     (case materials_density (current_collector (h (anode c))) of
        Inl e \<Rightarrow> Raised e c
      | Inr anode_cc_density \<Rightarrow>
     (let c1 = c\<lparr>electrolyte := (electrolyte c)\<lparr>volume := Some (electrolyte_volume c h)\<rparr>\<rparr>;
          c2 = c1\<lparr>total_mass := Some (total_mass_value c h cathode_cc_density anode_cc_density),
                  total_volume := Some (total_volume_value c h)\<rparr>
      in
     (case getitem (mass_ratio (h (cathode c))) ''am'' of
        Inl e \<Rightarrow> Raised e c2
      | Inr cathode_am \<Rightarrow>
     (case getitem (mass_ratio (h (anode c))) ''am'' of
        Inl e \<Rightarrow> Raised e c2
      | Inr anode_am \<Rightarrow>
     (let cap = py_min (cathode_capacity c h cathode_am) (anode_capacity c h anode_am) * ice c;
          c3 = c2\<lparr>Cell.capacity := Some cap\<rparr>
      in
     (case py_div (electrolyte_volume c h) cap of
        Inl e \<Rightarrow> Raised e c3
      | Inr per_ah \<Rightarrow>
     (let c4 = c3\<lparr>electrolyte := (electrolyte c3)\<lparr>volume_per_ah := Some per_ah\<rparr>\<rparr>;
          en = cap * cell_voltage c h;
          c5 = c4\<lparr>energy := Some en\<rparr>
      in
     (case py_div en (total_volume_value c h) of
        Inl e \<Rightarrow> Raised e c5
      | Inr q_vol \<Rightarrow>
     (let c6 = c5\<lparr>volumetric_energy_density := Some (q_vol * 1000)\<rparr> in
     (case py_div en (total_mass_value c h cathode_cc_density anode_cc_density) of
        Inl e \<Rightarrow> Raised e c6
      | Inr q_mass \<Rightarrow>
          Done (c6\<lparr>gravimetric_energy_density := Some (q_mass * 1000)\<rparr>))))))))))))"

definition Cell_post_init :: "Cell \<Rightarrow> heap \<Rightarrow> (Cell \<times> heap) outcome" where
  "Cell_post_init c h =
     (case calculate_anode_properties c h of
        Raised e h1 \<Rightarrow> Raised e (c, h1)
      | Done h1 \<Rightarrow>
          (case calculate_energy_density c h1 of
             Raised e c1 \<Rightarrow> Raised e (c1, h1)
           | Done c1 \<Rightarrow> Done (c1, h1)))"

text \<open>
  The generated \<open>__init__\<close> of a cell: the nine arguments are stored, the six result
  fields do not exist yet, and \<open>__post_init__\<close> runs.
\<close>

definition Cell_init ::
  "ref \<Rightarrow> ref \<Rightarrow> Separator \<Rightarrow> Electrolyte \<Rightarrow> Pouch \<Rightarrow> Tab \<Rightarrow> int \<Rightarrow> real \<Rightarrow> real \<Rightarrow> heap
     \<Rightarrow> (Cell \<times> heap) outcome" where
  "Cell_init ca an sep el fmt tb n npr i h =
     Cell_post_init
       \<lparr>cathode = ca, anode = an, separator = sep, electrolyte = el, format = fmt, tabs = tb,
        layers_number = n, n_p_ratio = npr, ice = i,
        volumetric_energy_density = None, gravimetric_energy_density = None, energy = None,
        Cell.capacity = None, total_mass = None, total_volume = None\<rparr> h"

section \<open>Input conditions used by the theorems\<close>

text \<open>
  The inputs the two raw electrode capacities depend on are not negative.
\<close>

definition electrode_nonneg :: "Electrode \<Rightarrow> bool" where
  "electrode_nonneg e \<longleftrightarrow>
     0 \<le> Electrode.width e \<and> 0 \<le> Electrode.height e \<and> 0 \<le> Electrode.thickness e \<and>
     0 \<le> Electrode.density e \<and> 0 \<le> Electrode.capacity e \<and> 0 \<le> areal_capacity e \<and>
     (case mass_ratio e ''am'' of None \<Rightarrow> True | Some m \<Rightarrow> 0 \<le> m)"

definition nonneg_inputs :: "Cell \<Rightarrow> heap \<Rightarrow> bool" where
  "nonneg_inputs c h \<longleftrightarrow>
     electrode_nonneg (h (cathode c)) \<and> electrode_nonneg (h (anode c)) \<and>
     0 \<le> layers_number c \<and> 0 \<le> n_p_ratio c"

text \<open>
  A physically meaningful design: positive geometry, densities and capacities, an
  active-material fraction that is present and positive, porosities and electrolyte
  excess that are not negative, current collectors that the material table knows, and
  a cathode that has a coating (the anode's coating is computed).
\<close>

definition electrode_positive :: "Electrode \<Rightarrow> bool" where
  "electrode_positive e \<longleftrightarrow>
     0 < Electrode.width e \<and> 0 < Electrode.height e \<and> 0 < cc_thickness e \<and>
     0 < tab_height e \<and> 0 < tab_width e \<and> 0 < Electrode.density e \<and>
     0 < Electrode.capacity e \<and> 0 \<le> Electrode.porosity e \<and>
     (case mass_ratio e ''am'' of None \<Rightarrow> False | Some m \<Rightarrow> 0 < m) \<and>
     (case materials_density (current_collector e) of Inl err \<Rightarrow> False | Inr d \<Rightarrow> True)"

definition components_positive :: "Cell \<Rightarrow> bool" where
  "components_positive c \<longleftrightarrow>
     0 < Separator.width (separator c) \<and> 0 < Separator.height (separator c) \<and>
     0 < Separator.thickness (separator c) \<and> 0 \<le> Separator.porosity (separator c) \<and>
     0 < Separator.density (separator c) \<and>
     0 < Pouch.width (format c) \<and> 0 < Pouch.height (format c) \<and>
     0 < Pouch.thickness (format c) \<and> 0 < Pouch.density (format c) \<and>
     0 < Tab.height (tabs c) \<and> 0 < Tab.width (tabs c) \<and> 0 < Tab.thickness (tabs c) \<and>
     0 < density_cathode (tabs c) \<and> 0 < density_anode (tabs c) \<and>
     0 < Electrolyte.density (electrolyte c) \<and> 0 \<le> volume_excess (electrolyte c) \<and>
     0 < n_p_ratio c \<and> 0 < ice c"

definition positive_inputs :: "Cell \<Rightarrow> heap \<Rightarrow> bool" where
  "positive_inputs c h \<longleftrightarrow>
     electrode_positive (h (cathode c)) \<and> electrode_positive (h (anode c)) \<and>
     0 < Electrode.thickness (h (cathode c)) \<and> 0 < areal_capacity (h (cathode c)) \<and>
     components_positive c"

text \<open>A name the material table does not have: \<open>materials.get(name)\<close> is \<open>None\<close>.\<close>

definition unknown_material :: "string \<Rightarrow> bool" where
  "unknown_material name \<longleftrightarrow> dict_get materials name = Inr PyNone"

section \<open>A worked design\<close>

text \<open>
  A Prussian Blue cathode on aluminium against a hard-carbon anode on copper, Celgard
  separator, NaPF6 electrolyte, five layers, N:P ratio 1.1. The two electrode records
  are what \<open>Electrode_init\<close> returns for these arguments (lemmas
  \<open>example_cathode_init\<close> and \<open>example_anode_init\<close>), the tab record what
  \<open>Tab_post_init\<close> returns. The cathode is object 0 of the store, the anode object 1.
\<close>

definition example_mass_ratio :: "string \<rightharpoonup> real" where
  "example_mass_ratio = [''am'' \<mapsto> 0.9, ''carbon'' \<mapsto> 0.05, ''binder'' \<mapsto> 0.05]"

definition example_cathode :: Electrode where
  "example_cathode =
     \<lparr>active_material = ''Prussian Blue'', mass_ratio = example_mass_ratio,
      binder_material = ''CMC+SBR'', Electrode.porosity = 0.3, voltage = 3.2,
      Electrode.capacity = 150, density_am = 1.8, Electrode.width = 5, Electrode.height = 8,
      cc_thickness = 0.0016, current_collector = ''Al'', Electrode.thickness = 0.01,
      tab_height = 1, tab_width = 1, Electrode.density = 8512 / 6875,
      areal_capacity = 57456 / 34375\<rparr>"

definition example_anode :: Electrode where
  "example_anode =
     \<lparr>active_material = ''Hard Carbon'', mass_ratio = example_mass_ratio,
      binder_material = ''CMC+SBR'', Electrode.porosity = 0.3, voltage = 0.1,
      Electrode.capacity = 300, density_am = 1.6, Electrode.width = 5, Electrode.height = 8,
      cc_thickness = 0.0006, current_collector = ''Cu'', Electrode.thickness = 0,
      tab_height = 1, tab_width = 1, Electrode.density = 8512 / 7635,
      areal_capacity = 0\<rparr>"

definition example_separator :: Separator where
  "example_separator =
     \<lparr>Separator.material = ''Celgard 2325'', Separator.width = 5, Separator.height = 8,
      Separator.thickness = 0.0025, Separator.porosity = 0.41, Separator.density = 0.74\<rparr>"

definition example_electrolyte :: Electrolyte where
  "example_electrolyte =
     \<lparr>Electrolyte.material = ''NaPF6 in diglyme'', Electrolyte.density = 1.15,
      volume_excess = 0, volume = None, volume_per_ah = None\<rparr>"

definition example_pouch :: Pouch where
  "example_pouch =
     \<lparr>Pouch.width = 5.9, Pouch.height = 10, Pouch.thickness = 0.0113, Pouch.density = 1.62\<rparr>"

definition example_tabs :: Tab where
  "example_tabs =
     \<lparr>material_cathode = ''Al'', material_anode = ''Cu'', Tab.height = 1, Tab.width = 1,
      Tab.thickness = 0.01, density_cathode = 2.7, density_anode = 8.94\<rparr>"

definition example_heap :: heap where
  "example_heap = (\<lambda>r. example_anode)(0 := example_cathode)"

definition example_cell :: Cell where
  "example_cell =
     \<lparr>cathode = 0, anode = 1, separator = example_separator,
      electrolyte = example_electrolyte, format = example_pouch, tabs = example_tabs,
      layers_number = 5, n_p_ratio = 1.1, ice = 0.93,
      volumetric_energy_density = None, gravimetric_energy_density = None, energy = None,
      Cell.capacity = None, total_mass = None, total_volume = None\<rparr>"

text \<open>The same design with a cathode current collector the table does not have.\<close>

definition zn_heap :: heap where
  "zn_heap = example_heap(0 := example_cathode\<lparr>current_collector := ''Zn''\<rparr>)"

text \<open>The same design with an anode current collector the table does not have.\<close>

definition zn_anode_heap :: heap where
  "zn_anode_heap = example_heap(1 := example_anode\<lparr>current_collector := ''Zn''\<rparr>)"

text \<open>The same design with one electrode object given as cathode and as anode.\<close>

definition aliased_cell :: Cell where
  "aliased_cell = example_cell\<lparr>anode := 0\<rparr>"

text \<open>The same design with no layers.\<close>

definition zero_layers_cell :: Cell where
  "zero_layers_cell = example_cell\<lparr>layers_number := 0\<rparr>"

text \<open>
  What construction makes of the design: the store after the anode has been sized, and
  the cell with its results (lemma \<open>example_built\<close>).
\<close>

definition example_sized_heap :: heap where
  "example_sized_heap =
     example_heap(1 := example_anode\<lparr>Electrode.thickness := 1527 / 250000,
                                      areal_capacity := 57456 / 31250\<rparr>)"

definition example_built_cell :: Cell where
  "example_built_cell =
     example_cell
       \<lparr>electrolyte := example_electrolyte
          \<lparr>volume := Some (155597 / 62500), volume_per_ah := Some (42789175 / 10686816)\<rparr>,
        volumetric_energy_density := Some (2650330368 / 13398605),
        gravimetric_energy_density := Some (4417217280 / 37440941),
        energy := Some (41411412 / 21484375),
        Cell.capacity := Some (2671704 / 4296875),
        total_mass := Some (112322823 / 6875000),
        total_volume := Some (243611 / 25000)\<rparr>"

text \<open>
  What construction leaves of the design with no layers when it raises (lemma
  \<open>zero_layers_left\<close>): the electrolyte volume, the totals and a capacity of zero.
\<close>

definition zero_layers_left_cell :: Cell where
  "zero_layers_left_cell =
     zero_layers_cell
       \<lparr>electrolyte := example_electrolyte\<lparr>volume := Some (4581 / 31250)\<rparr>,
        Cell.capacity := Some 0,
        total_mass := Some (4018931 / 1250000),
        total_volume := Some (46181 / 25000)\<rparr>"

section \<open>Basic facts\<close>

lemma bind_Inr [simp]: "bind (Inr x) f = f x"
  by (simp add: bind_def)

lemma bind_Inl [simp]: "bind (Inl e) f = Inl e"
  by (simp add: bind_def)

lemma py_div_nonzero: "b \<noteq> 0 \<Longrightarrow> py_div a b = Inr (a / b)"
  by (simp add: py_div_def)

lemma py_min_eq_min: "py_min a b = min a b"
  by (simp add: py_min_def min_def)

lemma materials_density_pos: "materials_density n = Inr d \<Longrightarrow> 0 < d"
  by (auto simp add: materials_density_def materials_def bind_def split: if_splits)

lemma materials_density_SuperP: "materials_density ''SuperP'' = Inr (19 / 10)"
  by (simp add: materials_density_def materials_def)

lemma convex3_lower:
  fixes r1 r2 r3 d1 d2 d3 :: real
  assumes "0 \<le> r1" "0 \<le> r2" "0 \<le> r3" "r1 + r2 + r3 = 1"
  shows "min d1 (min d2 d3) \<le> r1 * d1 + r2 * d2 + r3 * d3"
proof -
  let ?m = "min d1 (min d2 d3)"
  have "r1 * ?m \<le> r1 * d1" "r2 * ?m \<le> r2 * d2" "r3 * ?m \<le> r3 * d3"
    using assms by (simp_all add: mult_left_mono)
  moreover have "?m = r1 * ?m + r2 * ?m + r3 * ?m"
    using assms(4) by (simp add: distrib_right [symmetric])
  ultimately show ?thesis by linarith
qed

lemma convex3_upper:
  fixes r1 r2 r3 d1 d2 d3 :: real
  assumes "0 \<le> r1" "0 \<le> r2" "0 \<le> r3" "r1 + r2 + r3 = 1"
  shows "r1 * d1 + r2 * d2 + r3 * d3 \<le> max d1 (max d2 d3)"
proof -
  let ?m = "max d1 (max d2 d3)"
  have "r1 * d1 \<le> r1 * ?m" "r2 * d2 \<le> r2 * ?m" "r3 * d3 \<le> r3 * ?m"
    using assms by (simp_all add: mult_left_mono)
  moreover have "?m = r1 * ?m + r2 * ?m + r3 * ?m"
    using assms(4) by (simp add: distrib_right [symmetric])
  ultimately show ?thesis by linarith
qed

lemma calculate_composite_density_value:
  assumes am: "mass_ratio e ''am'' = Some a"
    and carbon: "mass_ratio e ''carbon'' = Some cb"
    and bnd: "mass_ratio e ''binder'' = Some b"
    and dam: "density_am e \<noteq> 0"
    and db: "materials_density (binder_material e) = Inr db"
    and s: "a / density_am e + cb / (19 / 10) + b / db \<noteq> 0"
  shows "calculate_composite_density e =
           Inr (e\<lparr>Electrode.density := (1 - Electrode.porosity e) *
                 (a / density_am e / (a / density_am e + cb / (19 / 10) + b / db) * density_am e +
                  cb / (19 / 10) / (a / density_am e + cb / (19 / 10) + b / db) * (19 / 10) +
                  b / db / (a / density_am e + cb / (19 / 10) + b / db) * db)\<rparr>)"
proof -
  have "db \<noteq> 0" using materials_density_pos [OF db] by simp
  then show ?thesis
    using s dam am carbon bnd
    by (simp add: calculate_composite_density_def getitem_def db materials_density_SuperP
        py_div_nonzero)
qed

text \<open>
  Claim C6. An electrode whose three mass fractions are present, not negative and sum
  to 1, whose active-material density is positive and whose binder is in the material
  table (the table's densities are all positive, and conductive carbon is SuperP, 1.9)
  is constructed without an exception, and its composite density lies between
  \<open>(1 - porosity) * min\<close> and \<open>(1 - porosity) * max\<close> of the three constituent
  densities: from below and above in that order when \<open>porosity \<le> 1\<close>, in the
  opposite order when \<open>porosity \<ge> 1\<close>, where the factor is negative.
\<close>

theorem composite_density_bounded:
  assumes am: "mass_ratio e ''am'' = Some a"
    and carbon: "mass_ratio e ''carbon'' = Some cb"
    and bnd: "mass_ratio e ''binder'' = Some b"
    and total: "a + cb + b = 1"
    and nonneg: "0 \<le> a" "0 \<le> cb" "0 \<le> b"
    and dam: "0 < density_am e"
    and db: "materials_density (binder_material e) = Inr db"
  shows "\<exists>e'. Electrode_post_init e = Inr e' \<and>
           (Electrode.porosity e \<le> 1 \<longrightarrow>
              (1 - Electrode.porosity e) * min (density_am e) (min (19 / 10) db) \<le> Electrode.density e' \<and>
              Electrode.density e' \<le> (1 - Electrode.porosity e) * max (density_am e) (max (19 / 10) db)) \<and>
           (1 \<le> Electrode.porosity e \<longrightarrow>
              (1 - Electrode.porosity e) * max (density_am e) (max (19 / 10) db) \<le> Electrode.density e' \<and>
              Electrode.density e' \<le> (1 - Electrode.porosity e) * min (density_am e) (min (19 / 10) db))"
proof -
  define v1 v2 v3 where "v1 = a / density_am e" and "v2 = cb / (19 / 10)" and "v3 = b / db"
  define s where "s = v1 + v2 + v3"
  define mix where "mix = v1 / s * density_am e + v2 / s * (19 / 10) + v3 / s * db"
  have dbpos: "0 < db" using materials_density_pos [OF db] .
  have v: "0 \<le> v1" "0 \<le> v2" "0 \<le> v3"
    using nonneg dam dbpos by (simp_all add: v1_def v2_def v3_def)
  have "0 < a \<or> 0 < cb \<or> 0 < b" using total nonneg by linarith
  then have "0 < v1 \<or> 0 < v2 \<or> 0 < v3"
    using dam dbpos by (auto simp add: v1_def v2_def v3_def)
  then have spos: "0 < s" using v unfolding s_def by linarith
  have r: "0 \<le> v1 / s" "0 \<le> v2 / s" "0 \<le> v3 / s"
    using v spos by simp_all
  have rsum: "v1 / s + v2 / s + v3 / s = 1"
    using spos by (simp add: s_def add_divide_distrib [symmetric])
  have lo: "min (density_am e) (min (19 / 10) db) \<le> mix"
    unfolding mix_def by (rule convex3_lower [OF r rsum])
  have hi: "mix \<le> max (density_am e) (max (19 / 10) db)"
    unfolding mix_def by (rule convex3_upper [OF r rsum])
  have "calculate_composite_density e =
          Inr (e\<lparr>Electrode.density := (1 - Electrode.porosity e) * mix\<rparr>)"
    using calculate_composite_density_value [OF am carbon bnd _ db] spos dam
    by (simp add: mix_def s_def v1_def v2_def v3_def)
  then have post: "Electrode_post_init e =
      Inr (e\<lparr>Electrode.density := (1 - Electrode.porosity e) * mix,
             areal_capacity := (1 - Electrode.porosity e) * mix * Electrode.thickness e *
                               Electrode.capacity e * a\<rparr>)"
    using am by (simp add: Electrode_post_init_def calculate_areal_capacity_def getitem_def)
  have "Electrode.porosity e \<le> 1 \<Longrightarrow>
          (1 - Electrode.porosity e) * min (density_am e) (min (19 / 10) db)
            \<le> (1 - Electrode.porosity e) * mix \<and>
          (1 - Electrode.porosity e) * mix
            \<le> (1 - Electrode.porosity e) * max (density_am e) (max (19 / 10) db)"
    using lo hi by (simp add: mult_left_mono)
  moreover have "1 \<le> Electrode.porosity e \<Longrightarrow>
          (1 - Electrode.porosity e) * max (density_am e) (max (19 / 10) db)
            \<le> (1 - Electrode.porosity e) * mix \<and>
          (1 - Electrode.porosity e) * mix
            \<le> (1 - Electrode.porosity e) * min (density_am e) (min (19 / 10) db)"
    using lo hi by (simp add: mult_left_mono_neg)
  ultimately show ?thesis
    unfolding post by simp
qed

theorem composite_density_bounded_witness:
  "(\<exists>e'. Electrode_init ''Prussian Blue'' example_mass_ratio ''CMC+SBR'' 0.3 3.2 150 1.8 5 8 0.0016
            ''Al'' 0.01 1 1 = Inr e' \<and>
        (1 - 0.3) * 1.28 \<le> Electrode.density e' \<and> Electrode.density e' \<le> (1 - 0.3) * 1.9) \<and>
   (\<exists>e'. Electrode_init ''Prussian Blue'' example_mass_ratio ''CMC+SBR'' 1.5 3.2 150 1.8 5 8 0.0016
            ''Al'' 0.01 1 1 = Inr e' \<and>
        (1 - 1.5) * 1.9 \<le> Electrode.density e' \<and> Electrode.density e' \<le> (1 - 1.5) * 1.28)"
proof -
  have 1: "\<exists>e'. Electrode_init ''Prussian Blue'' example_mass_ratio ''CMC+SBR'' 0.3 3.2 150 1.8 5 8 0.0016
            ''Al'' 0.01 1 1 = Inr e' \<and>
        (1 - 0.3) * 1.28 \<le> Electrode.density e' \<and> Electrode.density e' \<le> (1 - 0.3) * 1.9"
    using composite_density_bounded [where a = "0.9" and cb = "0.05" and b = "0.05" and db = "1.28"
      and e = "\<lparr>active_material = ''Prussian Blue'', mass_ratio = example_mass_ratio,
        binder_material = ''CMC+SBR'', Electrode.porosity = 0.3, voltage = 3.2,
        Electrode.capacity = 150, density_am = 1.8, Electrode.width = 5,
        Electrode.height = 8, cc_thickness = 0.0016, current_collector = ''Al'',
        Electrode.thickness = 0.01, tab_height = 1, tab_width = 1,
        Electrode.density = 0, areal_capacity = 0\<rparr>"]
    by (simp add: Electrode_init_def example_mass_ratio_def materials_density_def materials_def)
  have 2: "\<exists>e'. Electrode_init ''Prussian Blue'' example_mass_ratio ''CMC+SBR'' 1.5 3.2 150 1.8 5 8 0.0016
            ''Al'' 0.01 1 1 = Inr e' \<and>
        (1 - 1.5) * 1.9 \<le> Electrode.density e' \<and> Electrode.density e' \<le> (1 - 1.5) * 1.28"
    using composite_density_bounded [where a = "0.9" and cb = "0.05" and b = "0.05" and db = "1.28"
      and e = "\<lparr>active_material = ''Prussian Blue'', mass_ratio = example_mass_ratio,
        binder_material = ''CMC+SBR'', Electrode.porosity = 1.5, voltage = 3.2,
        Electrode.capacity = 150, density_am = 1.8, Electrode.width = 5,
        Electrode.height = 8, cc_thickness = 0.0016, current_collector = ''Al'',
        Electrode.thickness = 0.01, tab_height = 1, tab_width = 1,
        Electrode.density = 0, areal_capacity = 0\<rparr>"]
    by (simp add: Electrode_init_def example_mass_ratio_def materials_density_def materials_def)
  show ?thesis using 1 2 by blast
qed

section \<open>The two stages of cell construction\<close>

lemma calculate_anode_properties_Done:
  assumes "mass_ratio (h (anode c)) ''am'' = Some m"
    and "Electrode.density (h (anode c)) * Electrode.capacity (h (anode c)) * m \<noteq> 0"
  shows "calculate_anode_properties c h =
           Done (h(anode c := (h (anode c))
             \<lparr>Electrode.thickness :=
                areal_capacity (h (cathode c)) * n_p_ratio c /
                (Electrode.density (h (anode c)) * Electrode.capacity (h (anode c)) * m),
              areal_capacity :=
                Electrode.density (h (anode c)) *
                (areal_capacity (h (cathode c)) * n_p_ratio c /
                 (Electrode.density (h (anode c)) * Electrode.capacity (h (anode c)) * m)) *
                Electrode.capacity (h (anode c)) * m\<rparr>))"
  using assms
  by (simp add: calculate_anode_properties_def calculate_areal_capacity_def getitem_def
      py_div_def Let_def)

lemma calculate_anode_properties_DoneD:
  assumes "calculate_anode_properties c h = Done h'"
  shows "\<exists>m. mass_ratio (h (anode c)) ''am'' = Some m \<and>
             Electrode.density (h (anode c)) * Electrode.capacity (h (anode c)) * m \<noteq> 0"
  using assms
  by (auto simp add: calculate_anode_properties_def calculate_areal_capacity_def getitem_def
      py_div_def Let_def bind_def split: option.splits if_splits sum.splits)

lemma calculate_anode_properties_frame:
  "final (calculate_anode_properties c h) =
     h(anode c := (h (anode c))
        \<lparr>Electrode.thickness := Electrode.thickness (final (calculate_anode_properties c h) (anode c)),
         areal_capacity := areal_capacity (final (calculate_anode_properties c h) (anode c))\<rparr>)"
  by (auto simp add: calculate_anode_properties_def calculate_areal_capacity_def getitem_def
      py_div_def Let_def bind_def split: option.splits if_splits sum.splits)

lemma calculate_energy_density_DoneD:
  assumes "calculate_energy_density c h = Done c'"
  shows "\<exists>ccd acd cam aam.
           materials_density (current_collector (h (cathode c))) = Inr ccd \<and>
           materials_density (current_collector (h (anode c))) = Inr acd \<and>
           mass_ratio (h (cathode c)) ''am'' = Some cam \<and>
           mass_ratio (h (anode c)) ''am'' = Some aam \<and>
           py_min (cathode_capacity c h cam) (anode_capacity c h aam) * ice c \<noteq> 0 \<and>
           total_volume_value c h \<noteq> 0 \<and>
           total_mass_value c h ccd acd \<noteq> 0 \<and>
           c' = c\<lparr>electrolyte := (electrolyte c)
                    \<lparr>volume := Some (electrolyte_volume c h),
                     volume_per_ah := Some (electrolyte_volume c h /
                       (py_min (cathode_capacity c h cam) (anode_capacity c h aam) * ice c))\<rparr>,
                  total_mass := Some (total_mass_value c h ccd acd),
                  total_volume := Some (total_volume_value c h),
                  Cell.capacity := Some (py_min (cathode_capacity c h cam) (anode_capacity c h aam) * ice c),
                  energy := Some (py_min (cathode_capacity c h cam) (anode_capacity c h aam) * ice c *
                                  cell_voltage c h),
                  volumetric_energy_density :=
                    Some (py_min (cathode_capacity c h cam) (anode_capacity c h aam) * ice c *
                          cell_voltage c h / total_volume_value c h * 1000),
                  gravimetric_energy_density :=
                    Some (py_min (cathode_capacity c h cam) (anode_capacity c h aam) * ice c *
                          cell_voltage c h / total_mass_value c h ccd acd * 1000)\<rparr>"
  using assms
  by (auto simp add: calculate_energy_density_def getitem_def py_div_def Let_def
      split: sum.splits option.splits if_splits)

lemma calculate_energy_density_Done:
  assumes "materials_density (current_collector (h (cathode c))) = Inr ccd"
    and "materials_density (current_collector (h (anode c))) = Inr acd"
    and "mass_ratio (h (cathode c)) ''am'' = Some cam"
    and "mass_ratio (h (anode c)) ''am'' = Some aam"
    and "py_min (cathode_capacity c h cam) (anode_capacity c h aam) * ice c \<noteq> 0"
    and "total_volume_value c h \<noteq> 0"
    and "total_mass_value c h ccd acd \<noteq> 0"
  shows "calculate_energy_density c h =
         Done (c\<lparr>electrolyte := (electrolyte c)
                    \<lparr>volume := Some (electrolyte_volume c h),
                     volume_per_ah := Some (electrolyte_volume c h /
                       (py_min (cathode_capacity c h cam) (anode_capacity c h aam) * ice c))\<rparr>,
                  total_mass := Some (total_mass_value c h ccd acd),
                  total_volume := Some (total_volume_value c h),
                  Cell.capacity := Some (py_min (cathode_capacity c h cam) (anode_capacity c h aam) * ice c),
                  energy := Some (py_min (cathode_capacity c h cam) (anode_capacity c h aam) * ice c *
                                  cell_voltage c h),
                  volumetric_energy_density :=
                    Some (py_min (cathode_capacity c h cam) (anode_capacity c h aam) * ice c *
                          cell_voltage c h / total_volume_value c h * 1000),
                  gravimetric_energy_density :=
                    Some (py_min (cathode_capacity c h cam) (anode_capacity c h aam) * ice c *
                          cell_voltage c h / total_mass_value c h ccd acd * 1000)\<rparr>)"
  using assms
  by (simp add: calculate_energy_density_def getitem_def py_div_def Let_def)

lemma calculate_energy_density_frame:
  "final (calculate_energy_density c h) =
     c\<lparr>electrolyte := (electrolyte c)
          \<lparr>volume := volume (electrolyte (final (calculate_energy_density c h))),
           volume_per_ah := volume_per_ah (electrolyte (final (calculate_energy_density c h)))\<rparr>,
       volumetric_energy_density := volumetric_energy_density (final (calculate_energy_density c h)),
       gravimetric_energy_density := gravimetric_energy_density (final (calculate_energy_density c h)),
       energy := energy (final (calculate_energy_density c h)),
       Cell.capacity := Cell.capacity (final (calculate_energy_density c h)),
       total_mass := total_mass (final (calculate_energy_density c h)),
       total_volume := total_volume (final (calculate_energy_density c h))\<rparr>"
  by (simp add: calculate_energy_density_def getitem_def py_div_def Let_def
      split: sum.splits option.splits)

lemma Cell_post_init_DoneD:
  assumes "Cell_post_init c h = Done (c', h')"
  shows "calculate_anode_properties c h = Done h' \<and> calculate_energy_density c h' = Done c'"
  using assms by (auto simp add: Cell_post_init_def split: outcome.splits)

lemma materials_density_Al: "materials_density ''Al'' = Inr (27 / 10)"
  by (simp add: materials_density_def materials_def)

lemma materials_density_Cu: "materials_density ''Cu'' = Inr (447 / 50)"
  by (simp add: materials_density_def materials_def)

lemma materials_density_CMC_SBR: "materials_density ''CMC+SBR'' = Inr (32 / 25)"
  by (simp add: materials_density_def materials_def)

lemma materials_density_Zn: "materials_density ''Zn'' = Inl (KeyError ''Zn'')"
  by (simp add: materials_density_def materials_def)

lemma example_cathode_init:
  "Electrode_init ''Prussian Blue'' example_mass_ratio ''CMC+SBR'' 0.3 3.2 150 1.8 5 8 0.0016
     ''Al'' 0.01 1 1 = Inr example_cathode"
  by (simp add: Electrode_init_def Electrode_post_init_def calculate_composite_density_def
      calculate_areal_capacity_def getitem_def py_div_def example_mass_ratio_def
      materials_density_SuperP materials_density_CMC_SBR example_cathode_def)

lemma example_anode_init:
  "Electrode_init ''Hard Carbon'' example_mass_ratio ''CMC+SBR'' 0.3 0.1 300 1.6 5 8 0.0006
     ''Cu'' 0 1 1 = Inr example_anode"
  by (simp add: Electrode_init_def Electrode_post_init_def calculate_composite_density_def
      calculate_areal_capacity_def getitem_def py_div_def example_mass_ratio_def
      materials_density_SuperP materials_density_CMC_SBR example_anode_def)

lemma example_tabs_init:
  "Tab_post_init (example_tabs\<lparr>density_cathode := x, density_anode := y\<rparr>) = Inr example_tabs"
  by (simp add: Tab_post_init_def materials_get_density_def materials_def example_tabs_def)

lemma Electrode_post_init_fresh:
  "Electrode_post_init (e\<lparr>Electrode.density := x, areal_capacity := y\<rparr>) = Electrode_post_init e"
  by (simp add: Electrode_post_init_def calculate_composite_density_def
      calculate_areal_capacity_def bind_def split: sum.splits)

lemma Cell_post_init_heap:
  "snd (final (Cell_post_init c h)) = final (calculate_anode_properties c h)"
  by (simp add: Cell_post_init_def split: outcome.splits)

text \<open>
  Claim C1. When the anode has an active-material fraction and its density, specific
  capacity and that fraction are not zero, the sizing stage of cell construction
  returns; the anode's thickness is then the cathode's areal capacity times the N:P
  ratio divided by \<open>density * capacity * mass_ratio['am']\<close> of the anode, and the
  recomputed areal capacity of the anode is the cathode's areal capacity (the value the
  thickness was solved from) times the N:P ratio. The store reached is the one cell
  construction ends with, whether or not the aggregation stage raises. When the two
  electrodes are distinct objects the cathode is not touched, so the equation also
  holds for the cathode's areal capacity read afterwards.
\<close>

theorem anode_sizing_inverse_consistent:
  assumes am: "mass_ratio (h (anode c)) ''am'' = Some m"
    and nz: "Electrode.density (h (anode c)) \<noteq> 0" "Electrode.capacity (h (anode c)) \<noteq> 0" "m \<noteq> 0"
  shows "\<exists>h'. calculate_anode_properties c h = Done h' \<and>
           snd (final (Cell_post_init c h)) = h' \<and>
           Electrode.thickness (h' (anode c)) =
             areal_capacity (h (cathode c)) * n_p_ratio c /
             (Electrode.density (h (anode c)) * Electrode.capacity (h (anode c)) * m) \<and>
           areal_capacity (h' (anode c)) = areal_capacity (h (cathode c)) * n_p_ratio c \<and>
           (cathode c \<noteq> anode c \<longrightarrow>
              areal_capacity (h' (anode c)) = areal_capacity (h' (cathode c)) * n_p_ratio c)"
proof -
  have d: "Electrode.density (h (anode c)) * Electrode.capacity (h (anode c)) * m \<noteq> 0"
    using nz by simp
  have "calculate_anode_properties c h =
          Done (h(anode c := (h (anode c))
            \<lparr>Electrode.thickness :=
               areal_capacity (h (cathode c)) * n_p_ratio c /
               (Electrode.density (h (anode c)) * Electrode.capacity (h (anode c)) * m),
             areal_capacity :=
               Electrode.density (h (anode c)) *
               (areal_capacity (h (cathode c)) * n_p_ratio c /
                (Electrode.density (h (anode c)) * Electrode.capacity (h (anode c)) * m)) *
               Electrode.capacity (h (anode c)) * m\<rparr>))"
    using am d by (rule calculate_anode_properties_Done [where h = h and c = c and m = m])
  then show ?thesis
    unfolding Cell_post_init_heap using nz by simp
qed

theorem anode_sizing_inverse_consistent_witness:
  "\<exists>h'. calculate_anode_properties example_cell example_heap = Done h' \<and>
      snd (final (Cell_post_init example_cell example_heap)) = h' \<and>
      Electrode.thickness (h' 1) = 1527 / 250000 \<and>
      areal_capacity (h' 1) = 57456 / 34375 * 1.1 \<and>
      areal_capacity (h' 1) = areal_capacity (h' 0) * 1.1"
  using anode_sizing_inverse_consistent [where h = example_heap and c = example_cell and m = "0.9"]
  by (simp add: example_cell_def example_heap_def example_anode_def example_cathode_def
      example_mass_ratio_def)

section \<open>Frame of cell construction\<close>

lemma Cell_post_init_cell:
  "fst (final (Cell_post_init c h)) =
     (case calculate_anode_properties c h of
        Raised e h1 \<Rightarrow> c
      | Done h1 \<Rightarrow> final (calculate_energy_density c h1))"
  by (simp add: Cell_post_init_def split: outcome.splits)

lemma Cell_post_init_cell_frame:
  "fst (final (Cell_post_init c h)) =
     c\<lparr>electrolyte := (electrolyte c)
          \<lparr>volume := volume (electrolyte (fst (final (Cell_post_init c h)))),
           volume_per_ah := volume_per_ah (electrolyte (fst (final (Cell_post_init c h))))\<rparr>,
       volumetric_energy_density := volumetric_energy_density (fst (final (Cell_post_init c h))),
       gravimetric_energy_density := gravimetric_energy_density (fst (final (Cell_post_init c h))),
       energy := energy (fst (final (Cell_post_init c h))),
       Cell.capacity := Cell.capacity (fst (final (Cell_post_init c h))),
       total_mass := total_mass (fst (final (Cell_post_init c h))),
       total_volume := total_volume (fst (final (Cell_post_init c h)))\<rparr>"
proof (cases "calculate_anode_properties c h")
  case (Done h1)
  then have "fst (final (Cell_post_init c h)) = final (calculate_energy_density c h1)"
    by (simp add: Cell_post_init_cell)
  then show ?thesis
    using calculate_energy_density_frame [where c = c and h = h1] by simp
next
  case (Raised e h1)
  then have "fst (final (Cell_post_init c h)) = c"
    by (simp add: Cell_post_init_cell)
  then show ?thesis by simp
qed

text \<open>
  Claim C8. Whatever the outcome of cell construction (returned or raised), with
  \<open>c'\<close> and \<open>h'\<close> the cell and the store it leaves: every electrode object
  other than the anode is unchanged, the anode differs from before at most in
  \<open>thickness\<close> and \<open>areal_capacity\<close>, the electrolyte at most in \<open>volume\<close> and
  \<open>volume_per_ah\<close>, and separator, pouch, tabs, the two electrode references,
  \<open>layers_number\<close>, \<open>n_p_ratio\<close> and \<open>ice\<close> of the cell are unchanged. The
  cathode and the anode of a cell are two electrode instances, so every field of the
  cathode is unchanged.
\<close>

theorem cell_construction_frame:
  assumes "final (Cell_post_init c h) = (c', h')"
  shows "(\<forall>r. r \<noteq> anode c \<longrightarrow> h' r = h r) \<and>
         (cathode c \<noteq> anode c \<longrightarrow> h' (cathode c) = h (cathode c)) \<and>
         h' (anode c) = (h (anode c))
            \<lparr>Electrode.thickness := Electrode.thickness (h' (anode c)),
             areal_capacity := areal_capacity (h' (anode c))\<rparr> \<and>
         electrolyte c' = (electrolyte c)
            \<lparr>volume := volume (electrolyte c'), volume_per_ah := volume_per_ah (electrolyte c')\<rparr> \<and>
         separator c' = separator c \<and> format c' = format c \<and> tabs c' = tabs c \<and>
         cathode c' = cathode c \<and> anode c' = anode c \<and>
         layers_number c' = layers_number c \<and> n_p_ratio c' = n_p_ratio c \<and> ice c' = ice c"
proof -
  have h': "h' = final (calculate_anode_properties c h)"
    using assms Cell_post_init_heap [where c = c and h = h] by simp
  have c': "c' = fst (final (Cell_post_init c h))"
    using assms by simp
  have heap: "h' = h(anode c := (h (anode c))
        \<lparr>Electrode.thickness := Electrode.thickness (h' (anode c)),
         areal_capacity := areal_capacity (h' (anode c))\<rparr>)"
    unfolding h' by (rule calculate_anode_properties_frame)
  have cell: "c' = c\<lparr>electrolyte := (electrolyte c)
          \<lparr>volume := volume (electrolyte c'), volume_per_ah := volume_per_ah (electrolyte c')\<rparr>,
       volumetric_energy_density := volumetric_energy_density c',
       gravimetric_energy_density := gravimetric_energy_density c',
       energy := energy c', Cell.capacity := Cell.capacity c',
       total_mass := total_mass c', total_volume := total_volume c'\<rparr>"
    unfolding c' by (rule Cell_post_init_cell_frame)
  have 1: "\<forall>r. r \<noteq> anode c \<longrightarrow> h' r = h r"
    by (subst heap) simp
  have 2: "h' (anode c) = (h (anode c))
            \<lparr>Electrode.thickness := Electrode.thickness (h' (anode c)),
             areal_capacity := areal_capacity (h' (anode c))\<rparr>"
    by (subst heap) simp
  have 3: "electrolyte c' = (electrolyte c)
            \<lparr>volume := volume (electrolyte c'), volume_per_ah := volume_per_ah (electrolyte c')\<rparr>"
    by (subst cell) simp
  have 4: "separator c' = separator c" "format c' = format c" "tabs c' = tabs c"
    "cathode c' = cathode c" "anode c' = anode c" "layers_number c' = layers_number c"
    "n_p_ratio c' = n_p_ratio c" "ice c' = ice c"
    by (subst cell, simp)+
  show ?thesis using 1 2 3 4 by simp
qed

text \<open>
  In the worked design the cathode object and the separator come out as they went in.
\<close>

theorem cell_construction_frame_witness:
  "snd (final (Cell_post_init example_cell example_heap)) 0 = example_cathode \<and>
   separator (fst (final (Cell_post_init example_cell example_heap))) = example_separator"
  using cell_construction_frame [where c = example_cell and h = example_heap
      and c' = "fst (final (Cell_post_init example_cell example_heap))"
      and h' = "snd (final (Cell_post_init example_cell example_heap))"]
  by (simp add: example_cell_def example_heap_def)

lemma aliased_sizing:
  "calculate_anode_properties aliased_cell example_heap =
     Done (example_heap(0 := example_cathode\<lparr>Electrode.thickness := 11 / 1000,
                                           areal_capacity := 57456 / 31250\<rparr>))"
  using calculate_anode_properties_Done [where c = aliased_cell and h = example_heap and m = "0.9"]
  by (simp add: aliased_cell_def example_cell_def example_heap_def example_cathode_def
      example_mass_ratio_def)

text \<open>
  Why the two electrodes have to be two instances: were one electrode object given as
  cathode and as anode, the sizing stage would overwrite its thickness (0.01 becomes
  0.011).
\<close>

lemma aliased_electrode_resized:
  "Electrode.thickness (snd (final (Cell_post_init aliased_cell example_heap)) (cathode aliased_cell))
     \<noteq> Electrode.thickness (example_heap (cathode aliased_cell))"
  unfolding Cell_post_init_heap aliased_sizing
  by (simp add: aliased_cell_def example_cell_def example_heap_def example_cathode_def)

lemma volumes_frame:
  assumes "calculate_energy_density c h = Done c'"
  shows "cathode_volume c' h = cathode_volume c h" "anode_volume c' h = anode_volume c h"
    "separator_volume c' = separator_volume c" "pouch_volume c' = pouch_volume c"
    "anode_cc_volume c' h = anode_cc_volume c h" "cathode_cc_volume c' h = cathode_cc_volume c h"
    "total_void_volume c' h = total_void_volume c h"
    "cathode c' = cathode c" "anode c' = anode c" "separator c' = separator c" "ice c' = ice c"
proof -
  have c': "c' = final (calculate_energy_density c h)" using assms by simp
  have eqs: "cathode c' = cathode c" "anode c' = anode c" "separator c' = separator c"
    "format c' = format c" "layers_number c' = layers_number c" "ice c' = ice c"
    unfolding c' by (subst calculate_energy_density_frame, simp)+
  show "cathode_volume c' h = cathode_volume c h" "anode_volume c' h = anode_volume c h"
    "separator_volume c' = separator_volume c" "pouch_volume c' = pouch_volume c"
    "anode_cc_volume c' h = anode_cc_volume c h" "cathode_cc_volume c' h = cathode_cc_volume c h"
    "total_void_volume c' h = total_void_volume c h"
    "cathode c' = cathode c" "anode c' = anode c" "separator c' = separator c" "ice c' = ice c"
    by (simp_all add: eqs cathode_volume_def anode_volume_def separator_volume_def
        pouch_volume_def anode_cc_volume_def cathode_cc_volume_def total_void_volume_def
        cathode_void_volume_def anode_void_volume_def separator_void_volume_def)
qed

lemma calculate_energy_density_Done_fields:
  assumes "calculate_energy_density c h = Done c'"
  shows "volume (electrolyte c') = Some (electrolyte_volume c h)"
    and "total_volume c' = Some (total_volume_value c h)"
  using calculate_energy_density_DoneD [where c = c and h = h and c' = c', OF assms]
  by auto

text \<open>
  Claim C4. For every constructed cell, \<open>total_volume\<close> is the sum of the cathode,
  anode, separator and pouch volumes and the two current-collector volumes, plus the
  electrolyte volume less the total void volume, where the total void volume is the
  sum of cathode, anode and separator volume each times its porosity. The volumes are
  those of the finished cell, computed from the anode as sized.
\<close>

theorem total_volume_accounting:
  assumes "Cell_post_init c h = Done (c', h')"
  shows "\<exists>ev. volume (electrolyte c') = Some ev \<and>
           total_volume c' =
             Some (cathode_volume c' h' + anode_volume c' h' + separator_volume c' +
                   pouch_volume c' + anode_cc_volume c' h' + cathode_cc_volume c' h' +
                   (ev - total_void_volume c' h')) \<and>
           total_void_volume c' h' =
             cathode_volume c' h' * Electrode.porosity (h' (cathode c')) +
             anode_volume c' h' * Electrode.porosity (h' (anode c')) +
             separator_volume c' * Separator.porosity (separator c')"
proof -
  have ced: "calculate_energy_density c h' = Done c'"
    using Cell_post_init_DoneD [where c = c and h = h and c' = c' and h' = h'] assms by simp
  note fr = volumes_frame [where c = c and h = h' and c' = c', OF ced]
  note fl = calculate_energy_density_Done_fields [where c = c and h = h' and c' = c', OF ced]
  have "total_volume c' =
          Some (cathode_volume c h' + anode_volume c h' + separator_volume c +
                pouch_volume c + anode_cc_volume c h' + cathode_cc_volume c h' +
                (electrolyte_volume c h' - total_void_volume c h'))"
    by (simp add: fl total_volume_value_def)
  moreover have "total_void_volume c h' =
             cathode_volume c h' * Electrode.porosity (h' (cathode c)) +
             anode_volume c h' * Electrode.porosity (h' (anode c)) +
             separator_volume c * Separator.porosity (separator c)"
    by (simp add: total_void_volume_def cathode_void_volume_def anode_void_volume_def
        separator_void_volume_def)
  ultimately show ?thesis
    by (simp add: fr fl)
qed

text \<open>
  Claim C10. For every constructed cell whose electrolyte has \<open>volume_excess = 0\<close>,
  the electrolyte volume assigned is the total void volume and \<open>total_volume\<close> is
  the sum of the six component volumes.
\<close>

theorem no_excess_electrolyte_fills_voids:
  assumes "Cell_post_init c h = Done (c', h')"
    and "volume_excess (electrolyte c) = 0"
  shows "volume (electrolyte c') = Some (total_void_volume c' h') \<and>
         total_volume c' =
           Some (cathode_volume c' h' + anode_volume c' h' + separator_volume c' +
                 pouch_volume c' + anode_cc_volume c' h' + cathode_cc_volume c' h')"
proof -
  have ced: "calculate_energy_density c h' = Done c'"
    using Cell_post_init_DoneD [where c = c and h = h and c' = c' and h' = h'] assms by simp
  note fr = volumes_frame [where c = c and h = h' and c' = c', OF ced]
  note fl = calculate_energy_density_Done_fields [where c = c and h = h' and c' = c', OF ced]
  have ev: "electrolyte_volume c h' = total_void_volume c h'"
    using assms(2) by (simp add: electrolyte_volume_def)
  show ?thesis
    by (simp add: fr fl ev total_volume_value_def)
qed

section \<open>The worked design, evaluated\<close>

lemma example_sizing:
  "calculate_anode_properties example_cell example_heap = Done example_sized_heap"
  using calculate_anode_properties_Done [where c = example_cell and h = example_heap and m = "0.9"]
  by (simp add: example_cell_def example_heap_def example_cathode_def example_anode_def
      example_mass_ratio_def example_sized_heap_def)

lemma example_aggregation:
  "calculate_energy_density example_cell example_sized_heap = Done example_built_cell"
  by (simp add: calculate_energy_density_def example_cell_def example_sized_heap_def
      example_heap_def example_cathode_def example_anode_def example_mass_ratio_def
      example_separator_def example_electrolyte_def example_pouch_def example_tabs_def
      example_built_cell_def materials_density_Al materials_density_Cu getitem_def
      py_div_def py_min_def Let_def
      cathode_volume_def anode_volume_def separator_volume_def pouch_volume_def
      anode_cc_volume_def cathode_cc_volume_def cathode_mass_def anode_mass_def
      separator_mass_def pouch_mass_def cathode_cc_mass_def anode_cc_mass_def tabs_mass_def
      cathode_void_volume_def anode_void_volume_def separator_void_volume_def
      total_void_volume_def electrolyte_volume_def electrolyte_mass_def
      total_mass_value_def total_volume_value_def cathode_capacity_def anode_capacity_def
      cell_voltage_def)

lemma example_built:
  "Cell_post_init example_cell example_heap = Done (example_built_cell, example_sized_heap)"
  by (simp add: Cell_post_init_def example_sizing example_aggregation)

lemma example_cell_init:
  "Cell_init 0 1 example_separator example_electrolyte example_pouch example_tabs 5 1.1 0.93
     example_heap = Done (example_built_cell, example_sized_heap)"
  using example_built by (simp add: Cell_init_def example_cell_def)

text \<open>
  The worked design: 155597/62500 of electrolyte, all of it in the voids.
\<close>

theorem total_volume_accounting_witness:
  "Cell_post_init example_cell example_heap = Done (example_built_cell, example_sized_heap) \<and>
   volume (electrolyte example_built_cell) = Some (155597 / 62500) \<and>
   total_volume example_built_cell =
     Some (cathode_volume example_built_cell example_sized_heap +
           anode_volume example_built_cell example_sized_heap +
           separator_volume example_built_cell + pouch_volume example_built_cell +
           anode_cc_volume example_built_cell example_sized_heap +
           cathode_cc_volume example_built_cell example_sized_heap +
           (155597 / 62500 - total_void_volume example_built_cell example_sized_heap))"
proof -
  have "volume (electrolyte example_built_cell) = Some (155597 / 62500)"
    by (simp add: example_built_cell_def)
  then show ?thesis
    using total_volume_accounting [where c = example_cell and h = example_heap
        and c' = example_built_cell and h' = example_sized_heap, OF example_built]
      example_built
    by auto
qed

theorem no_excess_electrolyte_fills_voids_witness:
  "volume_excess (electrolyte example_cell) = 0 \<and>
   volume (electrolyte example_built_cell) =
     Some (total_void_volume example_built_cell example_sized_heap) \<and>
   total_volume example_built_cell =
     Some (cathode_volume example_built_cell example_sized_heap +
           anode_volume example_built_cell example_sized_heap +
           separator_volume example_built_cell + pouch_volume example_built_cell +
           anode_cc_volume example_built_cell example_sized_heap +
           cathode_cc_volume example_built_cell example_sized_heap)"
proof -
  have z: "volume_excess (electrolyte example_cell) = 0"
    by (simp add: example_cell_def example_electrolyte_def)
  show ?thesis
    using no_excess_electrolyte_fills_voids [where c = example_cell and h = example_heap
        and c' = example_built_cell and h' = example_sized_heap, OF example_built z] z
    by simp
qed

section \<open>Independence of the anode's initial coating\<close>

lemma calculate_anode_properties_KeyError:
  assumes "mass_ratio (h (anode c)) ''am'' = None"
  shows "calculate_anode_properties c h = Raised (KeyError ''am'') h"
  using assms by (simp add: calculate_anode_properties_def getitem_def)

lemma calculate_anode_properties_ZeroDivisionError:
  assumes "mass_ratio (h (anode c)) ''am'' = Some m"
    and "Electrode.density (h (anode c)) * Electrode.capacity (h (anode c)) * m = 0"
  shows "calculate_anode_properties c h = Raised ZeroDivisionError h"
  using assms by (simp add: calculate_anode_properties_def getitem_def py_div_def)

text \<open>
  Claim C9. Let two stores agree on every electrode but the anode, agree on the
  cathode, and differ on the anode at most in \<open>thickness\<close> and \<open>areal_capacity\<close>.
  Then constructing the same cell over either store raises the same exception or none,
  and when one construction returns, the other returns the same cell and the same
  store: all six results, the electrolyte's two results and the anode's final
  thickness and areal capacity are equal.
\<close>

theorem results_independent_of_anode_thickness:
  assumes others: "\<forall>r. r \<noteq> anode c \<longrightarrow> hb r = ha r"
    and an: "hb (anode c) = (ha (anode c))\<lparr>Electrode.thickness := t, areal_capacity := a\<rparr>"
    and ca: "hb (cathode c) = ha (cathode c)"
  shows "raised (Cell_post_init c hb) = raised (Cell_post_init c ha) \<and>
         (\<forall>c' h'. Cell_post_init c ha = Done (c', h') \<longrightarrow> Cell_post_init c hb = Done (c', h'))"
proof (cases "mass_ratio (ha (anode c)) ''am''")
  case None
  then have "mass_ratio (hb (anode c)) ''am'' = None" by (simp add: an)
  then have "calculate_anode_properties c hb = Raised (KeyError ''am'') hb"
    by (rule calculate_anode_properties_KeyError)
  moreover have "calculate_anode_properties c ha = Raised (KeyError ''am'') ha"
    using None by (rule calculate_anode_properties_KeyError)
  ultimately show ?thesis
    by (simp add: Cell_post_init_def)
next
  case (Some m)
  then have m2: "mass_ratio (hb (anode c)) ''am'' = Some m" by (simp add: an)
  show ?thesis
  proof (cases "Electrode.density (ha (anode c)) * Electrode.capacity (ha (anode c)) * m = 0")
    case True
    then have "Electrode.density (hb (anode c)) * Electrode.capacity (hb (anode c)) * m = 0"
      by (simp add: an)
    with m2 have "calculate_anode_properties c hb = Raised ZeroDivisionError hb"
      by (rule calculate_anode_properties_ZeroDivisionError)
    moreover have "calculate_anode_properties c ha = Raised ZeroDivisionError ha"
      using Some True by (rule calculate_anode_properties_ZeroDivisionError)
    ultimately show ?thesis
      by (simp add: Cell_post_init_def)
  next
    case False
    then have nz2: "Electrode.density (hb (anode c)) * Electrode.capacity (hb (anode c)) * m \<noteq> 0"
      by (simp add: an)
    define T where "T = areal_capacity (ha (cathode c)) * n_p_ratio c /
        (Electrode.density (ha (anode c)) * Electrode.capacity (ha (anode c)) * m)"
    define A where "A = Electrode.density (ha (anode c)) * T * Electrode.capacity (ha (anode c)) * m"
    define H where "H = ha(anode c := (ha (anode c))\<lparr>Electrode.thickness := T, areal_capacity := A\<rparr>)"
    have s1: "calculate_anode_properties c ha = Done H"
      using calculate_anode_properties_Done [where c = c and h = ha and m = m] Some False
      by (simp add: H_def A_def T_def)
    have "calculate_anode_properties c hb =
            Done (hb(anode c := (hb (anode c))\<lparr>Electrode.thickness := T, areal_capacity := A\<rparr>))"
      using calculate_anode_properties_Done [where c = c and h = hb and m = m] m2 nz2
      by (simp add: A_def T_def an ca)
    moreover have "hb(anode c := (hb (anode c))\<lparr>Electrode.thickness := T, areal_capacity := A\<rparr>) = H"
      using others by (auto simp add: H_def an fun_eq_iff)
    ultimately have s2: "calculate_anode_properties c hb = Done H" by simp
    have "Cell_post_init c hb = Cell_post_init c ha"
      by (simp add: Cell_post_init_def s1 s2)
    then show ?thesis by simp
  qed
qed

text \<open>
  The worked design with an anode that arrives with thickness 0.02 and areal capacity 5
  gives the cell and store of the worked design.
\<close>

theorem results_independent_of_anode_thickness_witness:
  "Cell_post_init example_cell
     (example_heap(1 := example_anode\<lparr>Electrode.thickness := 0.02, areal_capacity := 5\<rparr>)) =
   Done (example_built_cell, example_sized_heap)"
  using results_independent_of_anode_thickness [where c = example_cell and ha = example_heap
      and hb = "example_heap(1 := example_anode\<lparr>Electrode.thickness := 0.02, areal_capacity := 5\<rparr>)"
      and t = "0.02" and a = 5]
  by (simp add: example_built) (simp add: example_cell_def example_heap_def)

section \<open>Unknown materials\<close>

lemma unknown_material_density:
  "unknown_material n \<Longrightarrow> materials_density n = Inl (KeyError n)"
  by (auto simp add: unknown_material_def materials_density_def materials_def split: if_splits)

lemma unknown_material_get_density:
  "unknown_material n \<Longrightarrow> materials_get_density n = Inl TypeError"
  by (simp add: unknown_material_def materials_get_density_def)

lemma calculate_anode_properties_collector:
  "current_collector (final (calculate_anode_properties c h) r) = current_collector (h r)"
  by (subst calculate_anode_properties_frame) simp

lemma calculate_energy_density_cathode_collector:
  assumes "materials_density (current_collector (h (cathode c))) = Inl e"
  shows "calculate_energy_density c h = Raised e c"
  using assms by (simp add: calculate_energy_density_def)

lemma calculate_energy_density_anode_collector:
  assumes "materials_density (current_collector (h (cathode c))) = Inr d"
    and "materials_density (current_collector (h (anode c))) = Inl e"
  shows "calculate_energy_density c h = Raised e c"
  using assms by (simp add: calculate_energy_density_def)

lemma unknown_collector_raises:
  assumes "unknown_material (current_collector (h (cathode c))) \<or>
           unknown_material (current_collector (h (anode c)))"
  shows "raised (Cell_post_init c h) \<noteq> None"
proof (cases "calculate_anode_properties c h")
  case (Raised e h1)
  then show ?thesis by (simp add: Cell_post_init_def)
next
  case (Done h1)
  then have cc: "current_collector (h1 r) = current_collector (h r)" for r
    using calculate_anode_properties_collector [where c = c and h = h and r = r] by simp
  have "\<exists>e. calculate_energy_density c h1 = Raised e c"
  proof (cases "materials_density (current_collector (h1 (cathode c)))")
    case (Inl e)
    then show ?thesis
      using calculate_energy_density_cathode_collector [where c = c and h = h1 and e = e] by blast
  next
    case (Inr d)
    then have "\<not> unknown_material (current_collector (h (cathode c)))"
      using unknown_material_density [where n = "current_collector (h (cathode c))"]
      by (auto simp add: cc)
    then have "materials_density (current_collector (h1 (anode c))) =
                 Inl (KeyError (current_collector (h (anode c))))"
      using assms unknown_material_density [where n = "current_collector (h (anode c))"]
      by (simp add: cc)
    then show ?thesis
      using Inr calculate_energy_density_anode_collector [where c = c and h = h1 and d = d]
      by blast
  qed
  then show ?thesis
    using Done by (auto simp add: Cell_post_init_def)
qed

text \<open>
  Claim C5, as the code has it. The module has no exception class of its own; an
  unknown name surfaces as the built-in exception of the failing lookup. An electrode
  whose binder is unknown is not constructed. A tab whose cathode or anode material is
  unknown is not constructed, and the exception is \<open>TypeError\<close> (subscripting the
  \<open>None\<close> that \<open>materials.get\<close> returned) when the cathode material is the
  unknown one. A cell one of whose electrodes names
  an unknown current collector is not constructed either; when the sizing stage
  returns, the exception is \<open>KeyError\<close> with the unknown name (the cathode's first),
  raised by the aggregation stage with the anode already resized in the store.
\<close>

theorem unknown_material_raises:
  "(unknown_material (binder_material e) \<longrightarrow> isl (Electrode_post_init e)) \<and>
   (unknown_material (material_cathode t) \<or> unknown_material (material_anode t)
      \<longrightarrow> isl (Tab_post_init t)) \<and>
   (unknown_material (material_cathode t) \<longrightarrow> Tab_post_init t = Inl TypeError) \<and>
   (unknown_material (current_collector (h (cathode c))) \<or>
    unknown_material (current_collector (h (anode c)))
      \<longrightarrow> raised (Cell_post_init c h) \<noteq> None) \<and>
   (calculate_anode_properties c h = Done hs \<and>
    unknown_material (current_collector (h (cathode c)))
      \<longrightarrow> Cell_post_init c h = Raised (KeyError (current_collector (h (cathode c)))) (c, hs)) \<and>
   (calculate_anode_properties c h = Done hs \<and>
    materials_density (current_collector (h (cathode c))) = Inr d \<and>
    unknown_material (current_collector (h (anode c)))
      \<longrightarrow> Cell_post_init c h = Raised (KeyError (current_collector (h (anode c)))) (c, hs))"
proof -
  have el: "unknown_material (binder_material e) \<Longrightarrow> isl (Electrode_post_init e)"
    by (auto simp add: Electrode_post_init_def calculate_composite_density_def bind_def
        unknown_material_density split: sum.splits)
  have tab1: "unknown_material (material_cathode t) \<Longrightarrow> Tab_post_init t = Inl TypeError"
    by (simp add: Tab_post_init_def unknown_material_get_density)
  have tab2: "unknown_material (material_anode t) \<Longrightarrow> isl (Tab_post_init t)"
    by (cases "materials_get_density (material_cathode t)")
       (simp_all add: Tab_post_init_def unknown_material_get_density)
  have cell1: "Cell_post_init c h = Raised (KeyError (current_collector (h (cathode c)))) (c, hs)"
    if "calculate_anode_properties c h = Done hs"
      and "unknown_material (current_collector (h (cathode c)))"
  proof -
    have "current_collector (hs (cathode c)) = current_collector (h (cathode c))"
      using that(1) calculate_anode_properties_collector [where c = c and h = h and r = "cathode c"]
      by simp
    then have "calculate_energy_density c hs = Raised (KeyError (current_collector (h (cathode c)))) c"
      using that(2) unknown_material_density [where n = "current_collector (h (cathode c))"]
        calculate_energy_density_cathode_collector [where c = c and h = hs]
      by simp
    then show ?thesis using that(1) by (simp add: Cell_post_init_def)
  qed
  have cell2: "Cell_post_init c h = Raised (KeyError (current_collector (h (anode c)))) (c, hs)"
    if "calculate_anode_properties c h = Done hs"
      and "materials_density (current_collector (h (cathode c))) = Inr d"
      and "unknown_material (current_collector (h (anode c)))"
  proof -
    have cc: "current_collector (hs r) = current_collector (h r)" for r
      using that(1) calculate_anode_properties_collector [where c = c and h = h and r = r]
      by simp
    have "calculate_energy_density c hs = Raised (KeyError (current_collector (h (anode c)))) c"
      using that(2,3) unknown_material_density [where n = "current_collector (h (anode c))"]
        calculate_energy_density_anode_collector [where c = c and h = hs and d = d]
      by (simp add: cc)
    then show ?thesis using that(1) by (simp add: Cell_post_init_def)
  qed
  show ?thesis
    using el tab1 tab2 cell1 cell2 unknown_collector_raises [where c = c and h = h]
    by auto
qed

lemma zn_sizing:
  "calculate_anode_properties example_cell zn_heap =
     Done (zn_heap(1 := example_anode\<lparr>Electrode.thickness := 1527 / 250000,
                                       areal_capacity := 57456 / 31250\<rparr>))"
  using calculate_anode_properties_Done [where c = example_cell and h = zn_heap and m = "0.9"]
  by (simp add: example_cell_def zn_heap_def example_heap_def example_cathode_def
      example_anode_def example_mass_ratio_def)

lemma unknown_material_Zn: "unknown_material ''Zn''"
  by (simp add: unknown_material_def materials_def)

lemma zn_anode_sizing:
  "calculate_anode_properties example_cell zn_anode_heap =
     Done (zn_anode_heap(1 := example_anode\<lparr>current_collector := ''Zn'',
             Electrode.thickness := 1527 / 250000, areal_capacity := 57456 / 31250\<rparr>))"
  using calculate_anode_properties_Done [where c = example_cell and h = zn_anode_heap and m = "0.9"]
  by (simp add: example_cell_def zn_anode_heap_def example_heap_def example_cathode_def
      example_anode_def example_mass_ratio_def)

text \<open>
  Tabs and the worked design with the material \<open>Zn\<close>.
\<close>

theorem unknown_material_raises_witness:
  "isl (Electrode_post_init (example_cathode\<lparr>binder_material := ''Zn''\<rparr>)) \<and>
   isl (Tab_post_init (example_tabs\<lparr>material_anode := ''Zn''\<rparr>)) \<and>
   Tab_post_init (example_tabs\<lparr>material_cathode := ''Zn''\<rparr>) = Inl TypeError \<and>
   raised (Cell_post_init example_cell zn_heap) \<noteq> None \<and>
   Cell_post_init example_cell zn_heap =
     Raised (KeyError ''Zn'')
       (example_cell, zn_heap(1 := example_anode\<lparr>Electrode.thickness := 1527 / 250000,
                                                  areal_capacity := 57456 / 31250\<rparr>)) \<and>
   Cell_post_init example_cell zn_anode_heap =
     Raised (KeyError ''Zn'')
       (example_cell, zn_anode_heap(1 := example_anode\<lparr>current_collector := ''Zn'',
             Electrode.thickness := 1527 / 250000, areal_capacity := 57456 / 31250\<rparr>))"
proof -
  have 1: "isl (Electrode_post_init (example_cathode\<lparr>binder_material := ''Zn''\<rparr>))"
    using unknown_material_raises [where e = "example_cathode\<lparr>binder_material := ''Zn''\<rparr>"]
      unknown_material_Zn
    by simp
  have 2: "isl (Tab_post_init (example_tabs\<lparr>material_anode := ''Zn''\<rparr>))"
    using unknown_material_raises [where t = "example_tabs\<lparr>material_anode := ''Zn''\<rparr>"]
      unknown_material_Zn
    by simp
  have 3: "Tab_post_init (example_tabs\<lparr>material_cathode := ''Zn''\<rparr>) = Inl TypeError"
    using unknown_material_raises [where t = "example_tabs\<lparr>material_cathode := ''Zn''\<rparr>"]
      unknown_material_Zn
    by simp
  have cc: "current_collector (zn_heap (cathode example_cell)) = ''Zn''"
    "current_collector (zn_anode_heap (anode example_cell)) = ''Zn''"
    "current_collector (zn_anode_heap (cathode example_cell)) = ''Al''"
    by (simp_all add: example_cell_def zn_heap_def zn_anode_heap_def example_heap_def
        example_cathode_def)
  have 4: "raised (Cell_post_init example_cell zn_heap) \<noteq> None"
    using unknown_material_raises [where c = example_cell and h = zn_heap]
      unknown_material_Zn
    by (simp add: cc)
  have 5: "Cell_post_init example_cell zn_heap =
     Raised (KeyError ''Zn'')
       (example_cell, zn_heap(1 := example_anode\<lparr>Electrode.thickness := 1527 / 250000,
                                                  areal_capacity := 57456 / 31250\<rparr>))"
    using unknown_material_raises [where c = example_cell and h = zn_heap
        and hs = "zn_heap(1 := example_anode\<lparr>Electrode.thickness := 1527 / 250000,
                                                  areal_capacity := 57456 / 31250\<rparr>)"]
      zn_sizing unknown_material_Zn
    by (simp add: cc)
  have 6: "Cell_post_init example_cell zn_anode_heap =
     Raised (KeyError ''Zn'')
       (example_cell, zn_anode_heap(1 := example_anode\<lparr>current_collector := ''Zn'',
             Electrode.thickness := 1527 / 250000, areal_capacity := 57456 / 31250\<rparr>))"
    using unknown_material_raises [where c = example_cell and h = zn_anode_heap and d = "27 / 10"
        and hs = "zn_anode_heap(1 := example_anode\<lparr>current_collector := ''Zn'',
             Electrode.thickness := 1527 / 250000, areal_capacity := 57456 / 31250\<rparr>)"]
      zn_anode_sizing unknown_material_Zn materials_density_Al
    by (simp add: cc)
  show ?thesis using 1 2 3 4 5 6 by blast
qed

text \<open>
  Claim C5 as stated fails for the worked design with a \<open>Zn\<close> cathode collector: the
  \<open>KeyError\<close> is raised after numeric derivation, the thickness of the anode
  having been computed and written before.
\<close>

theorem unknown_collector_counterexample:
  "raised (Cell_post_init example_cell zn_heap) = Some (KeyError ''Zn'') \<and>
   Electrode.thickness (snd (final (Cell_post_init example_cell zn_heap)) (anode example_cell))
     \<noteq> Electrode.thickness (zn_heap (anode example_cell))"
proof -
  have "calculate_energy_density example_cell
          (zn_heap(1 := example_anode\<lparr>Electrode.thickness := 1527 / 250000,
                                        areal_capacity := 57456 / 31250\<rparr>)) =
        Raised (KeyError ''Zn'') example_cell"
    by (simp add: calculate_energy_density_def materials_density_Zn example_cell_def zn_heap_def)
  then have "Cell_post_init example_cell zn_heap =
      Raised (KeyError ''Zn'')
        (example_cell, zn_heap(1 := example_anode\<lparr>Electrode.thickness := 1527 / 250000,
                                                   areal_capacity := 57456 / 31250\<rparr>))"
    by (simp add: Cell_post_init_def zn_sizing)
  then show ?thesis
    by (simp add: example_cell_def zn_heap_def example_heap_def example_anode_def)
qed

section \<open>Positive designs\<close>

lemma electrode_positive_resized [simp]:
  "electrode_positive (e\<lparr>Electrode.thickness := t, areal_capacity := a\<rparr>) = electrode_positive e"
  by (simp add: electrode_positive_def)

lemma electrode_positive_am:
  assumes "electrode_positive e"
  obtains m where "mass_ratio e ''am'' = Some m" "0 < m"
  using assms by (auto simp add: electrode_positive_def split: option.splits)

lemma electrode_positive_collector:
  assumes "electrode_positive e"
  obtains d where "materials_density (current_collector e) = Inr d" "0 < d"
  using assms materials_density_pos [where n = "current_collector e"]
  by (auto simp add: electrode_positive_def split: sum.splits)

lemma sizing_positive:
  assumes "positive_inputs c h"
  shows "\<exists>h1. calculate_anode_properties c h = Done h1 \<and>
           electrode_positive (h1 (cathode c)) \<and> electrode_positive (h1 (anode c)) \<and>
           0 < Electrode.thickness (h1 (cathode c)) \<and> 0 < Electrode.thickness (h1 (anode c))"
proof -
  have ep: "electrode_positive (h (cathode c))" "electrode_positive (h (anode c))"
    and tc: "0 < Electrode.thickness (h (cathode c))"
    and ac: "0 < areal_capacity (h (cathode c))"
    and np: "0 < n_p_ratio c"
    using assms by (simp_all add: positive_inputs_def components_positive_def)
  obtain m where m: "mass_ratio (h (anode c)) ''am'' = Some m" "0 < m"
    using ep(2) by (rule electrode_positive_am)
  have d: "0 < Electrode.density (h (anode c))" "0 < Electrode.capacity (h (anode c))"
    using ep(2) by (simp_all add: electrode_positive_def)
  define den where "den = Electrode.density (h (anode c)) * Electrode.capacity (h (anode c)) * m"
  have den: "0 < den" using d m(2) by (simp add: den_def)
  define T where "T = areal_capacity (h (cathode c)) * n_p_ratio c / den"
  have T: "0 < T" using ac np den by (simp add: T_def)
  define A where "A = Electrode.density (h (anode c)) * T * Electrode.capacity (h (anode c)) * m"
  define H where "H = h(anode c := (h (anode c))\<lparr>Electrode.thickness := T, areal_capacity := A\<rparr>)"
  have "Electrode.density (h (anode c)) * Electrode.capacity (h (anode c)) * m \<noteq> 0"
    using d m(2) by simp
  with m(1) have "calculate_anode_properties c h = Done H"
    unfolding H_def A_def T_def den_def
    by (rule calculate_anode_properties_Done [where c = c and h = h and m = m])
  moreover have "electrode_positive (H (cathode c))" "electrode_positive (H (anode c))"
    "0 < Electrode.thickness (H (cathode c))" "0 < Electrode.thickness (H (anode c))"
    using ep tc T by (simp_all add: H_def)
  ultimately show ?thesis by blast
qed

lemma volumes_positive:
  assumes ep: "electrode_positive (h (cathode c))" "electrode_positive (h (anode c))"
    and tc: "0 < Electrode.thickness (h (cathode c))"
    and ta: "0 < Electrode.thickness (h (anode c))"
    and cp: "components_positive c"
    and L: "0 < layers_number c"
  shows "0 < cathode_volume c h" "0 < anode_volume c h" "0 < separator_volume c"
    "0 < pouch_volume c" "0 < anode_cc_volume c h" "0 < cathode_cc_volume c h"
proof -
  have Lr: "0 < (of_int (layers_number c) :: real)" "0 < (of_int (2 * layers_number c + 2) :: real)"
    "0 < (of_int (layers_number c + 1) :: real)"
    using L by simp_all
  show "0 < cathode_volume c h"
    unfolding cathode_volume_def using ep(1) tc Lr by (simp add: electrode_positive_def)
  show "0 < anode_volume c h"
    unfolding anode_volume_def using ep(2) ta Lr(2) by (simp add: electrode_positive_def)
  show "0 < separator_volume c"
    unfolding separator_volume_def using cp Lr by (simp add: components_positive_def)
  show "0 < pouch_volume c"
    unfolding pouch_volume_def using cp by (simp add: components_positive_def)
  have "0 < Electrode.width (h (anode c)) * Electrode.height (h (anode c)) +
            tab_height (h (anode c)) + tab_width (h (anode c))"
    using ep(2) by (simp add: electrode_positive_def add_pos_pos)
  then show "0 < anode_cc_volume c h"
    unfolding anode_cc_volume_def using ep(2) Lr(3) by (simp add: electrode_positive_def)
  have "0 < Electrode.width (h (cathode c)) * Electrode.height (h (cathode c)) +
            tab_height (h (cathode c)) * tab_width (h (cathode c))"
    using ep(1) by (simp add: electrode_positive_def add_pos_pos)
  then show "0 < cathode_cc_volume c h"
    unfolding cathode_cc_volume_def using ep(1) Lr(1) by (simp add: electrode_positive_def)
qed

lemma aggregation_positive:
  assumes ep: "electrode_positive (h (cathode c))" "electrode_positive (h (anode c))"
    and tc: "0 < Electrode.thickness (h (cathode c))"
    and ta: "0 < Electrode.thickness (h (anode c))"
    and cp: "components_positive c"
    and L: "0 < layers_number c"
  shows "\<exists>c' cap v g. calculate_energy_density c h = Done c' \<and>
           Cell.capacity c' = Some cap \<and> 0 < cap \<and>
           energy c' = Some (cap * cell_voltage c h) \<and>
           volumetric_energy_density c' = Some v \<and>
           gravimetric_energy_density c' = Some g \<and>
           (0 < cell_voltage c h \<longrightarrow> 0 < v \<and> 0 < g)"
proof -
  note vp = volumes_positive [where c = c and h = h, OF ep tc ta cp L]
  obtain ccd where ccd: "materials_density (current_collector (h (cathode c))) = Inr ccd" "0 < ccd"
    using ep(1) by (rule electrode_positive_collector)
  obtain acd where acd: "materials_density (current_collector (h (anode c))) = Inr acd" "0 < acd"
    using ep(2) by (rule electrode_positive_collector)
  obtain cam where cam: "mass_ratio (h (cathode c)) ''am'' = Some cam" "0 < cam"
    using ep(1) by (rule electrode_positive_am)
  obtain aam where aam: "mass_ratio (h (anode c)) ''am'' = Some aam" "0 < aam"
    using ep(2) by (rule electrode_positive_am)
  have el: "0 < Electrode.density (h (cathode c))" "0 < Electrode.density (h (anode c))"
    "0 < Electrode.capacity (h (cathode c))" "0 < Electrode.capacity (h (anode c))"
    "0 \<le> Electrode.porosity (h (cathode c))" "0 \<le> Electrode.porosity (h (anode c))"
    using ep by (simp_all add: electrode_positive_def)
  have co: "0 < Separator.density (separator c)" "0 \<le> Separator.porosity (separator c)"
    "0 < Pouch.density (format c)" "0 < Electrolyte.density (electrolyte c)"
    "0 \<le> volume_excess (electrolyte c)" "0 < ice c"
    using cp by (simp_all add: components_positive_def)
  have tabs: "0 < tabs_mass c"
    using cp by (simp add: tabs_mass_def components_positive_def add_pos_pos)
  have m: "0 < cathode_mass c h" "0 < anode_mass c h" "0 < separator_mass c" "0 < pouch_mass c"
    "0 < cathode_cc_mass c h ccd" "0 < anode_cc_mass c h acd"
    using vp el co ccd(2) acd(2)
    by (simp_all add: cathode_mass_def anode_mass_def separator_mass_def pouch_mass_def
        cathode_cc_mass_def anode_cc_mass_def)
  have void: "0 \<le> total_void_volume c h"
    using vp el co
    by (simp add: total_void_volume_def cathode_void_volume_def anode_void_volume_def
        separator_void_volume_def)
  have extra: "0 \<le> electrolyte_volume c h - total_void_volume c h"
  proof -
    have "electrolyte_volume c h - total_void_volume c h =
            total_void_volume c h * volume_excess (electrolyte c)"
      by (simp add: electrolyte_volume_def algebra_simps)
    then show ?thesis using void co by simp
  qed
  have em: "0 \<le> electrolyte_mass c h"
    using void co extra by (simp add: electrolyte_mass_def)
  have tv: "0 < total_volume_value c h"
    unfolding total_volume_value_def using vp extra by linarith
  have tm: "0 < total_mass_value c h ccd acd"
    unfolding total_mass_value_def using m tabs em by linarith
  have caps: "0 < cathode_capacity c h cam" "0 < anode_capacity c h aam"
    using m el cam(2) aam(2) by (simp_all add: cathode_capacity_def anode_capacity_def)
  define cap where "cap = py_min (cathode_capacity c h cam) (anode_capacity c h aam) * ice c"
  have cap: "0 < cap"
    using caps co by (simp add: cap_def py_min_def)
  have nz: "py_min (cathode_capacity c h cam) (anode_capacity c h aam) * ice c \<noteq> 0"
    "total_volume_value c h \<noteq> 0" "total_mass_value c h ccd acd \<noteq> 0"
    using cap tv tm by (auto simp add: cap_def)
  note D = calculate_energy_density_Done [where c = c and h = h and ccd = ccd and acd = acd
      and cam = cam and aam = aam, OF ccd(1) acd(1) cam(1) aam(1) nz, folded cap_def]
  show ?thesis
    unfolding D using cap tv tm by simp
qed

section \<open>Energy\<close>

lemma calculate_anode_properties_voltage:
  "voltage (final (calculate_anode_properties c h) r) = voltage (h r)"
  by (subst calculate_anode_properties_frame) simp

lemma calculate_anode_properties_porosity:
  "Electrode.porosity (final (calculate_anode_properties c h) r) = Electrode.porosity (h r)"
  by (subst calculate_anode_properties_frame) simp

lemma example_positive: "positive_inputs example_cell example_heap"
  by (simp add: positive_inputs_def electrode_positive_def components_positive_def
      example_cell_def example_heap_def example_cathode_def example_anode_def
      example_mass_ratio_def example_separator_def example_electrolyte_def example_pouch_def
      example_tabs_def materials_density_Al materials_density_Cu)

text \<open>
  Claim C3. For every constructed cell the energy is the capacity times the difference
  of cathode and anode voltage. For a physically meaningful design with at least one
  layer, cathode voltage 3.2 and anode voltage 0.1 (all else free: the scenario of the
  specification fixes materials but no geometry), construction returns, the energy is
  the capacity times \<open>3.2 - 0.1\<close>, and both energy densities are positive. (Reals
  are always finite.)
\<close>

theorem cell_energy:
  "(Cell_post_init c h = Done (c', h') \<longrightarrow>
      (\<exists>cap. Cell.capacity c' = Some cap \<and>
             energy c' = Some (cap * (voltage (h' (cathode c')) - voltage (h' (anode c')))))) \<and>
   (positive_inputs c h \<and> 0 < layers_number c \<and>
    voltage (h (cathode c)) = 3.2 \<and> voltage (h (anode c)) = 0.1 \<longrightarrow>
      (\<exists>cb hb cap v g. Cell_post_init c h = Done (cb, hb) \<and>
         Cell.capacity cb = Some cap \<and> energy cb = Some (cap * (3.2 - 0.1)) \<and>
         volumetric_energy_density cb = Some v \<and> 0 < v \<and>
         gravimetric_energy_density cb = Some g \<and> 0 < g))"
proof (intro conjI impI)
  assume built: "Cell_post_init c h = Done (c', h')"
  have ced: "calculate_energy_density c h' = Done c'"
    using Cell_post_init_DoneD [where c = c and h = h and c' = c' and h' = h'] built by simp
  note fr = volumes_frame [where c = c and h = h' and c' = c', OF ced]
  show "\<exists>cap. Cell.capacity c' = Some cap \<and>
          energy c' = Some (cap * (voltage (h' (cathode c')) - voltage (h' (anode c'))))"
    using calculate_energy_density_DoneD [where c = c and h = h' and c' = c', OF ced]
    by (auto simp add: cell_voltage_def)
next
  assume a: "positive_inputs c h \<and> 0 < layers_number c \<and>
    voltage (h (cathode c)) = 3.2 \<and> voltage (h (anode c)) = 0.1"
  then have cp: "components_positive c" by (simp add: positive_inputs_def)
  obtain hs where hs: "calculate_anode_properties c h = Done hs"
    "electrode_positive (hs (cathode c))" "electrode_positive (hs (anode c))"
    "0 < Electrode.thickness (hs (cathode c))" "0 < Electrode.thickness (hs (anode c))"
    using sizing_positive [where c = c and h = h] a by blast
  have "voltage (hs r) = voltage (h r)" for r
    using calculate_anode_properties_voltage [where c = c and h = h and r = r] hs(1) by simp
  then have v: "cell_voltage c hs = 3.2 - 0.1"
    using a by (simp add: cell_voltage_def)
  obtain cb cap v g where cb: "calculate_energy_density c hs = Done cb"
    "Cell.capacity cb = Some cap" "energy cb = Some (cap * cell_voltage c hs)"
    "volumetric_energy_density cb = Some v" "gravimetric_energy_density cb = Some g"
    "0 < cell_voltage c hs \<longrightarrow> 0 < v \<and> 0 < g"
    using aggregation_positive [where c = c and h = hs, OF hs(2,3,4,5) cp] a by blast
  have "Cell_post_init c h = Done (cb, hs)"
    using hs(1) cb(1) by (simp add: Cell_post_init_def)
  moreover have "0 < v \<and> 0 < g" using cb(6) v by simp
  ultimately show "\<exists>cb hb cap v g. Cell_post_init c h = Done (cb, hb) \<and>
         Cell.capacity cb = Some cap \<and> energy cb = Some (cap * (3.2 - 0.1)) \<and>
         volumetric_energy_density cb = Some v \<and> 0 < v \<and>
         gravimetric_energy_density cb = Some g \<and> 0 < g"
    using cb(2,3,4,5) v by auto
qed

text \<open>
  The worked design is the scenario of the specification, with a geometry chosen.
\<close>

theorem cell_energy_witness:
  "positive_inputs example_cell example_heap \<and>
   Cell_post_init example_cell example_heap = Done (example_built_cell, example_sized_heap) \<and>
   Cell.capacity example_built_cell = Some (2671704 / 4296875) \<and>
   energy example_built_cell = Some (2671704 / 4296875 * (3.2 - 0.1)) \<and>
   (\<exists>v g. volumetric_energy_density example_built_cell = Some v \<and> 0 < v \<and>
          gravimetric_energy_density example_built_cell = Some g \<and> 0 < g)"
proof -
  have v: "voltage (example_heap (cathode example_cell)) = 3.2"
    "voltage (example_heap (anode example_cell)) = 0.1" "0 < layers_number example_cell"
    by (simp_all add: example_cell_def example_heap_def example_cathode_def example_anode_def)
  note t = cell_energy [where c = example_cell and h = example_heap
      and c' = example_built_cell and h' = example_sized_heap]
  have "\<exists>cap. Cell.capacity example_built_cell = Some cap \<and>
          energy example_built_cell = Some (cap * (3.2 - 0.1))"
    using t example_positive example_built v by auto
  moreover have "Cell.capacity example_built_cell = Some (2671704 / 4296875)"
    by (simp add: example_built_cell_def)
  moreover have "\<exists>v g. volumetric_energy_density example_built_cell = Some v \<and> 0 < v \<and>
          gravimetric_energy_density example_built_cell = Some g \<and> 0 < g"
    using t example_positive example_built v by auto
  ultimately show ?thesis
    using example_positive example_built by auto
qed

section \<open>No layers\<close>

lemma aggregation_zero_layers:
  assumes ep: "electrode_positive (h (cathode c))" "electrode_positive (h (anode c))"
    and ta: "0 < Electrode.thickness (h (anode c))"
    and cp: "components_positive c"
    and L: "layers_number c = 0"
    and por: "0 < Electrode.porosity (h (anode c))"
  shows "cathode_volume c h = 0" "separator_volume c = 0" "cathode_cc_volume c h = 0"
    "0 < pouch_volume c"
    "anode_volume c h =
       2 * (Electrode.width (h (anode c)) * Electrode.height (h (anode c)) *
            Electrode.thickness (h (anode c)))"
    "0 < anode_volume c h" "0 < anode_cc_volume c h" "0 < electrolyte_volume c h"
    "\<exists>c'. calculate_energy_density c h = Raised ZeroDivisionError c' \<and>
          volume (electrolyte c') = Some (electrolyte_volume c h) \<and>
          Cell.capacity c' = Some 0"
proof -
  have el: "0 < Electrode.width (h (anode c))" "0 < Electrode.height (h (anode c))"
    "0 < cc_thickness (h (anode c))" "0 < tab_height (h (anode c))" "0 < tab_width (h (anode c))"
    "0 < Electrode.density (h (anode c))" "0 < Electrode.capacity (h (anode c))"
    using ep(2) by (simp_all add: electrode_positive_def)
  show cv: "cathode_volume c h = 0" by (simp add: cathode_volume_def L)
  show sv: "separator_volume c = 0" by (simp add: separator_volume_def L)
  show "cathode_cc_volume c h = 0" by (simp add: cathode_cc_volume_def L)
  show "0 < pouch_volume c" using cp by (simp add: pouch_volume_def components_positive_def)
  show av: "anode_volume c h =
       2 * (Electrode.width (h (anode c)) * Electrode.height (h (anode c)) *
            Electrode.thickness (h (anode c)))"
    by (simp add: anode_volume_def L)
  show avp: "0 < anode_volume c h" unfolding av using el ta by simp
  have "0 < Electrode.width (h (anode c)) * Electrode.height (h (anode c)) +
            tab_height (h (anode c)) + tab_width (h (anode c))"
    using el by (simp add: add_pos_pos)
  then show "0 < anode_cc_volume c h"
    unfolding anode_cc_volume_def using el by (simp add: L)
  have "total_void_volume c h = anode_volume c h * Electrode.porosity (h (anode c))"
    by (simp add: total_void_volume_def cathode_void_volume_def anode_void_volume_def
        separator_void_volume_def cv sv)
  then have "0 < total_void_volume c h" using avp por by simp
  moreover have "0 < 1 + volume_excess (electrolyte c)"
    using cp by (simp add: components_positive_def)
  ultimately show "0 < electrolyte_volume c h"
    by (simp add: electrolyte_volume_def)
  obtain ccd where ccd: "materials_density (current_collector (h (cathode c))) = Inr ccd" "0 < ccd"
    using ep(1) by (rule electrode_positive_collector)
  obtain acd where acd: "materials_density (current_collector (h (anode c))) = Inr acd" "0 < acd"
    using ep(2) by (rule electrode_positive_collector)
  obtain cam where cam: "mass_ratio (h (cathode c)) ''am'' = Some cam" "0 < cam"
    using ep(1) by (rule electrode_positive_am)
  obtain aam where aam: "mass_ratio (h (anode c)) ''am'' = Some aam" "0 < aam"
    using ep(2) by (rule electrode_positive_am)
  have cc: "cathode_capacity c h cam = 0"
    by (simp add: cathode_capacity_def cathode_mass_def cv)
  have "0 < anode_capacity c h aam"
    using avp el aam(2) by (simp add: anode_capacity_def anode_mass_def)
  then have "py_min (cathode_capacity c h cam) (anode_capacity c h aam) * ice c = 0"
    by (simp add: py_min_def cc)
  then show "\<exists>c'. calculate_energy_density c h = Raised ZeroDivisionError c' \<and>
          volume (electrolyte c') = Some (electrolyte_volume c h) \<and>
          Cell.capacity c' = Some 0"
    using ccd(1) acd(1) cam(1) aam(1)
    by (simp add: calculate_energy_density_def getitem_def py_div_def Let_def)
qed

text \<open>
  Claim C7, as the code has it. For a physically meaningful design with a porous anode
  and \<open>layers_number = 0\<close>: the cathode and separator volumes and the cathode
  current-collector volume are zero; the pouch volume, the anode volume (the extra
  layer, \<open>2 * w * h * thickness\<close>), the anode current-collector volume and the
  electrolyte volume assigned are positive; the capacity assigned is zero; and
  construction raises \<open>ZeroDivisionError\<close> when it divides the electrolyte volume by
  the capacity. No cell is constructed.
\<close>

theorem zero_layers_raises:
  assumes "positive_inputs c h" and "layers_number c = 0"
    and "0 < Electrode.porosity (h (anode c))"
  shows "\<exists>c' h'. Cell_post_init c h = Raised ZeroDivisionError (c', h') \<and>
           cathode_volume c h' = 0 \<and> separator_volume c = 0 \<and> cathode_cc_volume c h' = 0 \<and>
           0 < pouch_volume c \<and>
           anode_volume c h' =
             2 * (Electrode.width (h' (anode c)) * Electrode.height (h' (anode c)) *
                  Electrode.thickness (h' (anode c))) \<and>
           0 < anode_volume c h' \<and> 0 < anode_cc_volume c h' \<and>
           volume (electrolyte c') = Some (electrolyte_volume c h') \<and>
           0 < electrolyte_volume c h' \<and>
           Cell.capacity c' = Some 0"
proof -
  have cp: "components_positive c" using assms(1) by (simp add: positive_inputs_def)
  obtain hs where hs: "calculate_anode_properties c h = Done hs"
    "electrode_positive (hs (cathode c))" "electrode_positive (hs (anode c))"
    "0 < Electrode.thickness (hs (anode c))"
    using sizing_positive [where c = c and h = h] assms(1) by blast
  have "Electrode.porosity (hs (anode c)) = Electrode.porosity (h (anode c))"
    using calculate_anode_properties_porosity [where c = c and h = h and r = "anode c"] hs(1)
    by simp
  then have por: "0 < Electrode.porosity (hs (anode c))" using assms(3) by simp
  note z = aggregation_zero_layers [where c = c and h = hs, OF hs(2,3,4) cp assms(2) por]
  obtain c' where c': "calculate_energy_density c hs = Raised ZeroDivisionError c'"
    "volume (electrolyte c') = Some (electrolyte_volume c hs)" "Cell.capacity c' = Some 0"
    using z(9) by blast
  have "Cell_post_init c h = Raised ZeroDivisionError (c', hs)"
    using hs(1) c'(1) by (simp add: Cell_post_init_def)
  then show ?thesis
    using z(1-8) c'(2,3) by blast
qed

lemma zero_layers_sizing:
  "calculate_anode_properties zero_layers_cell example_heap = Done example_sized_heap"
  using calculate_anode_properties_Done [where c = zero_layers_cell and h = example_heap and m = "0.9"]
  by (simp add: zero_layers_cell_def example_cell_def example_heap_def example_cathode_def
      example_anode_def example_mass_ratio_def example_sized_heap_def)

lemma zero_layers_aggregation:
  "calculate_energy_density zero_layers_cell example_sized_heap =
     Raised ZeroDivisionError zero_layers_left_cell"
  by (simp add: calculate_energy_density_def zero_layers_cell_def example_cell_def
      example_sized_heap_def zero_layers_left_cell_def
      example_heap_def example_cathode_def example_anode_def example_mass_ratio_def
      example_separator_def example_electrolyte_def example_pouch_def example_tabs_def
      materials_density_Al materials_density_Cu getitem_def
      py_div_def py_min_def Let_def
      cathode_volume_def anode_volume_def separator_volume_def pouch_volume_def
      anode_cc_volume_def cathode_cc_volume_def cathode_mass_def anode_mass_def
      separator_mass_def pouch_mass_def cathode_cc_mass_def anode_cc_mass_def tabs_mass_def
      cathode_void_volume_def anode_void_volume_def separator_void_volume_def
      total_void_volume_def electrolyte_volume_def electrolyte_mass_def
      total_mass_value_def total_volume_value_def cathode_capacity_def anode_capacity_def
      cell_voltage_def)

lemma zero_layers_left:
  "Cell_post_init zero_layers_cell example_heap =
     Raised ZeroDivisionError (zero_layers_left_cell, example_sized_heap)"
  by (simp add: Cell_post_init_def zero_layers_sizing zero_layers_aggregation)

text \<open>
  Claim C7 as stated fails for the worked design with no layers: construction does not
  complete.
\<close>

theorem zero_layers_counterexample:
  "raised (Cell_post_init zero_layers_cell example_heap) = Some ZeroDivisionError"
  by (simp add: zero_layers_left)

lemma zero_layers_positive: "positive_inputs zero_layers_cell example_heap"
  using example_positive
  by (simp add: positive_inputs_def components_positive_def zero_layers_cell_def)

text \<open>
  The worked design with no layers.
\<close>

theorem zero_layers_raises_witness:
  "\<exists>c' h'. Cell_post_init zero_layers_cell example_heap = Raised ZeroDivisionError (c', h') \<and>
      cathode_volume zero_layers_cell h' = 0 \<and> separator_volume zero_layers_cell = 0 \<and>
      0 < pouch_volume zero_layers_cell \<and> 0 < anode_volume zero_layers_cell h' \<and>
      0 < anode_cc_volume zero_layers_cell h' \<and>
      volume (electrolyte c') = Some (electrolyte_volume zero_layers_cell h') \<and>
      0 < electrolyte_volume zero_layers_cell h' \<and> Cell.capacity c' = Some 0"
proof -
  have "layers_number zero_layers_cell = 0"
    "0 < Electrode.porosity (example_heap (anode zero_layers_cell))"
    by (simp_all add: zero_layers_cell_def example_cell_def example_heap_def example_anode_def)
  then show ?thesis
    using zero_layers_raises [where c = zero_layers_cell and h = example_heap]
      zero_layers_positive
    by blast
qed

section \<open>Capacity\<close>

lemma electrode_nonneg_resized:
  assumes "electrode_nonneg e" "0 \<le> t" "0 \<le> a"
  shows "electrode_nonneg (e\<lparr>Electrode.thickness := t, areal_capacity := a\<rparr>)"
  using assms by (simp add: electrode_nonneg_def)

lemma sizing_nonneg:
  assumes nn: "nonneg_inputs c h"
    and sized: "calculate_anode_properties c h = Done hs"
  shows "electrode_nonneg (hs (cathode c)) \<and> electrode_nonneg (hs (anode c))"
proof -
  obtain m where m: "mass_ratio (h (anode c)) ''am'' = Some m"
    "Electrode.density (h (anode c)) * Electrode.capacity (h (anode c)) * m \<noteq> 0"
    using calculate_anode_properties_DoneD [where c = c and h = h and h' = hs] sized by blast
  have en: "electrode_nonneg (h (cathode c))" "electrode_nonneg (h (anode c))" "0 \<le> n_p_ratio c"
    using nn by (simp_all add: nonneg_inputs_def)
  have an: "0 \<le> Electrode.density (h (anode c))" "0 \<le> Electrode.capacity (h (anode c))" "0 \<le> m"
    using en(2) m(1) by (simp_all add: electrode_nonneg_def)
  have ac: "0 \<le> areal_capacity (h (cathode c))"
    using en(1) by (simp add: electrode_nonneg_def)
  define T where "T = areal_capacity (h (cathode c)) * n_p_ratio c /
      (Electrode.density (h (anode c)) * Electrode.capacity (h (anode c)) * m)"
  define A where "A = Electrode.density (h (anode c)) * T * Electrode.capacity (h (anode c)) * m"
  have T: "0 \<le> T" unfolding T_def using ac en(3) an by simp
  have A: "0 \<le> A" unfolding A_def using T an by simp
  have "calculate_anode_properties c h =
          Done (h(anode c := (h (anode c))\<lparr>Electrode.thickness := T, areal_capacity := A\<rparr>))"
    using m unfolding A_def T_def
    by (rule calculate_anode_properties_Done [where c = c and h = h and m = m])
  then have hs: "hs = h(anode c := (h (anode c))\<lparr>Electrode.thickness := T, areal_capacity := A\<rparr>)"
    using sized by simp
  show ?thesis
    unfolding hs using en electrode_nonneg_resized [where e = "h (anode c)" and t = T and a = A] T A
    by simp
qed

lemma raw_capacities_nonneg:
  assumes "electrode_nonneg (h (cathode c))" "electrode_nonneg (h (anode c))"
    and "0 \<le> layers_number c"
    and "mass_ratio (h (cathode c)) ''am'' = Some cam"
    and "mass_ratio (h (anode c)) ''am'' = Some aam"
  shows "0 \<le> cathode_capacity c h cam" "0 \<le> anode_capacity c h aam"
  using assms
  by (simp_all add: electrode_nonneg_def cathode_capacity_def anode_capacity_def
      cathode_mass_def anode_mass_def cathode_volume_def anode_volume_def)

lemma volumes_frame_final:
  fixes c :: Cell and h :: heap
  defines "c' \<equiv> final (calculate_energy_density c h)"
  shows "cathode_mass c' k = cathode_mass c k" "anode_mass c' k = anode_mass c k"
    "cathode c' = cathode c" "anode c' = anode c" "ice c' = ice c"
proof -
  have eqs: "cathode c' = cathode c" "anode c' = anode c" "layers_number c' = layers_number c"
    "ice c' = ice c"
    unfolding c'_def by (subst calculate_energy_density_frame, simp)+
  show "cathode_mass c' k = cathode_mass c k" "anode_mass c' k = anode_mass c k"
    "cathode c' = cathode c" "anode c' = anode c" "ice c' = ice c"
    by (simp_all add: eqs cathode_mass_def anode_mass_def cathode_volume_def anode_volume_def)
qed

lemma calculate_energy_density_capacity:
  assumes "Cell.capacity (final (calculate_energy_density c h)) = Some cap"
    and "Cell.capacity c = None \<or> (\<exists>c'. calculate_energy_density c h = Done c')"
  shows "\<exists>cam aam. mass_ratio (h (cathode c)) ''am'' = Some cam \<and>
           mass_ratio (h (anode c)) ''am'' = Some aam \<and>
           cap = py_min (cathode_capacity c h cam) (anode_capacity c h aam) * ice c"
  using assms
  by (auto simp add: calculate_energy_density_def getitem_def py_div_def Let_def
      split: sum.splits option.splits if_splits)

lemma calculate_energy_density_Done_capacity:
  assumes "calculate_energy_density c h = Done c'"
  shows "\<exists>cap. Cell.capacity c' = Some cap \<and> cap \<noteq> 0"
  using calculate_energy_density_DoneD [where c = c and h = h and c' = c', OF assms]
  by auto

text \<open>
  Claim C2. Every constructed cell has a capacity, and it is not zero. Whenever
  construction has assigned a capacity (it returned, or the cell was fresh and the
  capacity is there in the state left by an exception), both electrodes have an
  active-material fraction and the capacity is \<open>min\<close> of the two raw electrode
  capacities (\<open>mass * mass_ratio['am'] * capacity / 1000\<close>) times \<open>ice\<close>. When
  the inputs are not negative and \<open>ice \<le> 1\<close>, the capacity is at most that
  minimum; and for \<open>ice > 0\<close> it is zero only when the minimum is, which is the
  case construction cannot survive.
\<close>

theorem cell_capacity_limited:
  "(Cell_post_init c h = Done (c', h') \<longrightarrow> (\<exists>cap. Cell.capacity c' = Some cap \<and> cap \<noteq> 0)) \<and>
   ((Cell_post_init c h = Done (c', h') \<or>
     Cell.capacity c = None \<and> final (Cell_post_init c h) = (c', h')) \<and>
    Cell.capacity c' = Some cap \<longrightarrow>
      (\<exists>cam aam.
         mass_ratio (h' (cathode c')) ''am'' = Some cam \<and>
         mass_ratio (h' (anode c')) ''am'' = Some aam \<and>
         cap = min (cathode_mass c' h' * cam * Electrode.capacity (h' (cathode c')) / 1000)
                   (anode_mass c' h' * aam * Electrode.capacity (h' (anode c')) / 1000) * ice c' \<and>
         (nonneg_inputs c h \<and> ice c' \<le> 1 \<longrightarrow>
            cap \<le> min (cathode_mass c' h' * cam * Electrode.capacity (h' (cathode c')) / 1000)
                       (anode_mass c' h' * aam * Electrode.capacity (h' (anode c')) / 1000)) \<and>
         (0 < ice c' \<and> cap = 0 \<longrightarrow>
            min (cathode_mass c' h' * cam * Electrode.capacity (h' (cathode c')) / 1000)
                (anode_mass c' h' * aam * Electrode.capacity (h' (anode c')) / 1000) = 0)))"
proof (intro conjI impI)
  assume "Cell_post_init c h = Done (c', h')"
  then have "calculate_energy_density c h' = Done c'"
    using Cell_post_init_DoneD [where c = c and h = h and c' = c' and h' = h'] by simp
  then show "\<exists>cap. Cell.capacity c' = Some cap \<and> cap \<noteq> 0"
    by (rule calculate_energy_density_Done_capacity)
next
  assume a: "(Cell_post_init c h = Done (c', h') \<or>
     Cell.capacity c = None \<and> final (Cell_post_init c h) = (c', h')) \<and>
    Cell.capacity c' = Some cap"
  then have fin: "final (Cell_post_init c h) = (c', h')" by auto
  have h': "h' = final (calculate_anode_properties c h)"
    using fin Cell_post_init_heap [where c = c and h = h] by simp
  have "\<exists>hs. calculate_anode_properties c h = Done hs"
  proof (cases "calculate_anode_properties c h")
    case (Done hs)
    then show ?thesis by simp
  next
    case (Raised e hs)
    then have "Cell_post_init c h = Raised e (c, hs)" by (simp add: Cell_post_init_def)
    then show ?thesis using a by auto
  qed
  then have sized: "calculate_anode_properties c h = Done h'"
    using h' by auto
  have c': "c' = final (calculate_energy_density c h')"
    using fin sized Cell_post_init_cell [where c = c and h = h] by simp
  have side: "Cell.capacity c = None \<or> (\<exists>cb. calculate_energy_density c h' = Done cb)"
    using a Cell_post_init_DoneD [where c = c and h = h and c' = c' and h' = h'] by auto
  obtain cam aam where am: "mass_ratio (h' (cathode c)) ''am'' = Some cam"
    "mass_ratio (h' (anode c)) ''am'' = Some aam"
    and cap: "cap = py_min (cathode_capacity c h' cam) (anode_capacity c h' aam) * ice c"
    using calculate_energy_density_capacity [where c = c and h = h' and cap = cap] a side
    unfolding c' by blast
  note fr = volumes_frame_final [where c = c and h = h', folded c']
  let ?lim = "min (cathode_mass c' h' * cam * Electrode.capacity (h' (cathode c')) / 1000)
                  (anode_mass c' h' * aam * Electrode.capacity (h' (anode c')) / 1000)"
  have raw: "cathode_capacity c h' cam =
               cathode_mass c' h' * cam * Electrode.capacity (h' (cathode c')) / 1000"
    "anode_capacity c h' aam =
               anode_mass c' h' * aam * Electrode.capacity (h' (anode c')) / 1000"
    by (simp_all add: cathode_capacity_def anode_capacity_def fr)
  have am': "mass_ratio (h' (cathode c')) ''am'' = Some cam"
    "mass_ratio (h' (anode c')) ''am'' = Some aam"
    using am by (simp_all add: fr)
  have 1: "cap = ?lim * ice c'"
    by (simp add: cap py_min_eq_min raw fr)
  have 2: "nonneg_inputs c h \<and> ice c' \<le> 1 \<longrightarrow> cap \<le> ?lim"
  proof
    assume b: "nonneg_inputs c h \<and> ice c' \<le> 1"
    then have "electrode_nonneg (h' (cathode c)) \<and> electrode_nonneg (h' (anode c))"
      using sizing_nonneg [where c = c and h = h and hs = h'] sized by simp
    moreover have "0 \<le> layers_number c" using b by (simp add: nonneg_inputs_def)
    ultimately have "0 \<le> cathode_capacity c h' cam" "0 \<le> anode_capacity c h' aam"
      using am raw_capacities_nonneg [where c = c and h = h' and cam = cam and aam = aam]
      by simp_all
    then have "0 \<le> ?lim" unfolding raw by simp
    moreover have "ice c' \<le> 1" using b by simp
    ultimately have "?lim * ice c' \<le> ?lim" by (simp only: mult_left_le)
    then show "cap \<le> ?lim" by (simp only: 1)
  qed
  have 3: "0 < ice c' \<and> cap = 0 \<longrightarrow> ?lim = 0"
    unfolding 1 by auto
  show "\<exists>cam aam.
         mass_ratio (h' (cathode c')) ''am'' = Some cam \<and>
         mass_ratio (h' (anode c')) ''am'' = Some aam \<and>
         cap = min (cathode_mass c' h' * cam * Electrode.capacity (h' (cathode c')) / 1000)
                   (anode_mass c' h' * aam * Electrode.capacity (h' (anode c')) / 1000) * ice c' \<and>
         (nonneg_inputs c h \<and> ice c' \<le> 1 \<longrightarrow>
            cap \<le> min (cathode_mass c' h' * cam * Electrode.capacity (h' (cathode c')) / 1000)
                       (anode_mass c' h' * aam * Electrode.capacity (h' (anode c')) / 1000)) \<and>
         (0 < ice c' \<and> cap = 0 \<longrightarrow>
            min (cathode_mass c' h' * cam * Electrode.capacity (h' (cathode c')) / 1000)
                (anode_mass c' h' * aam * Electrode.capacity (h' (anode c')) / 1000) = 0)"
    using am' 1 2 3 by blast
qed

lemma example_nonneg: "nonneg_inputs example_cell example_heap"
  by (simp add: nonneg_inputs_def electrode_nonneg_def example_cell_def example_heap_def
      example_cathode_def example_anode_def example_mass_ratio_def)

text \<open>
  The worked design, and the worked design with no layers, where the capacity assigned
  is zero because the cathode's raw capacity is.
\<close>

theorem cell_capacity_limited_witness:
  "Cell_post_init example_cell example_heap = Done (example_built_cell, example_sized_heap) \<and>
   nonneg_inputs example_cell example_heap \<and> ice example_built_cell \<le> 1 \<and>
   Cell.capacity example_built_cell =
     Some (min (cathode_mass example_built_cell example_sized_heap * 0.9 * 150 / 1000)
               (anode_mass example_built_cell example_sized_heap * 0.9 * 300 / 1000) * 0.93) \<and>
   2671704 / 4296875 \<le>
     min (cathode_mass example_built_cell example_sized_heap * 0.9 * 150 / 1000)
         (anode_mass example_built_cell example_sized_heap * 0.9 * 300 / 1000) \<and>
   Cell.capacity zero_layers_cell = None \<and>
   final (Cell_post_init zero_layers_cell example_heap) = (zero_layers_left_cell, example_sized_heap) \<and>
   Cell.capacity zero_layers_left_cell = Some 0 \<and> 0 < ice zero_layers_left_cell \<and>
   min (cathode_mass zero_layers_left_cell example_sized_heap * 0.9 * 150 / 1000)
       (anode_mass zero_layers_left_cell example_sized_heap * 0.9 * 300 / 1000) = 0"
proof -
  have f: "mass_ratio (example_sized_heap (cathode example_built_cell)) ''am'' = Some 0.9"
    "mass_ratio (example_sized_heap (anode example_built_cell)) ''am'' = Some 0.9"
    "Electrode.capacity (example_sized_heap (cathode example_built_cell)) = 150"
    "Electrode.capacity (example_sized_heap (anode example_built_cell)) = 300"
    "ice example_built_cell = 0.93"
    "Cell.capacity example_built_cell = Some (2671704 / 4296875)"
    by (simp_all add: example_built_cell_def example_cell_def example_sized_heap_def
        example_heap_def example_cathode_def example_anode_def example_mass_ratio_def)
  have g: "mass_ratio (example_sized_heap (cathode zero_layers_left_cell)) ''am'' = Some 0.9"
    "mass_ratio (example_sized_heap (anode zero_layers_left_cell)) ''am'' = Some 0.9"
    "Electrode.capacity (example_sized_heap (cathode zero_layers_left_cell)) = 150"
    "Electrode.capacity (example_sized_heap (anode zero_layers_left_cell)) = 300"
    "ice zero_layers_left_cell = 0.93"
    "Cell.capacity zero_layers_left_cell = Some 0"
    "Cell.capacity zero_layers_cell = None"
    by (simp_all add: zero_layers_left_cell_def zero_layers_cell_def example_cell_def
        example_sized_heap_def example_heap_def example_cathode_def example_anode_def
        example_mass_ratio_def)
  have fin: "final (Cell_post_init zero_layers_cell example_heap) =
               (zero_layers_left_cell, example_sized_heap)"
    by (simp add: zero_layers_left)
  obtain cam aam where w:
    "mass_ratio (example_sized_heap (cathode example_built_cell)) ''am'' = Some cam"
    "mass_ratio (example_sized_heap (anode example_built_cell)) ''am'' = Some aam"
    "2671704 / 4296875 =
       min (cathode_mass example_built_cell example_sized_heap * cam *
              Electrode.capacity (example_sized_heap (cathode example_built_cell)) / 1000)
           (anode_mass example_built_cell example_sized_heap * aam *
              Electrode.capacity (example_sized_heap (anode example_built_cell)) / 1000) *
       ice example_built_cell"
    "nonneg_inputs example_cell example_heap \<and> ice example_built_cell \<le> 1 \<longrightarrow>
       2671704 / 4296875 \<le>
         min (cathode_mass example_built_cell example_sized_heap * cam *
                Electrode.capacity (example_sized_heap (cathode example_built_cell)) / 1000)
             (anode_mass example_built_cell example_sized_heap * aam *
                Electrode.capacity (example_sized_heap (anode example_built_cell)) / 1000)"
    using cell_capacity_limited [where c = example_cell and h = example_heap
        and c' = example_built_cell and h' = example_sized_heap
        and cap = "2671704 / 4296875"] example_built f(6)
    by blast
  have v: "cam = 0.9" "aam = 0.9"
    using w(1,2) f(1,2) by simp_all
  have le: "ice example_built_cell \<le> 1" by (simp add: f(5))
  obtain cam0 aam0 where z:
    "mass_ratio (example_sized_heap (cathode zero_layers_left_cell)) ''am'' = Some cam0"
    "mass_ratio (example_sized_heap (anode zero_layers_left_cell)) ''am'' = Some aam0"
    "0 < ice zero_layers_left_cell \<and> (0::real) = 0 \<longrightarrow>
       min (cathode_mass zero_layers_left_cell example_sized_heap * cam0 *
              Electrode.capacity (example_sized_heap (cathode zero_layers_left_cell)) / 1000)
           (anode_mass zero_layers_left_cell example_sized_heap * aam0 *
              Electrode.capacity (example_sized_heap (anode zero_layers_left_cell)) / 1000) = 0"
    using cell_capacity_limited [where c = zero_layers_cell and h = example_heap
        and c' = zero_layers_left_cell and h' = example_sized_heap and cap = 0] fin g(6,7)
    by blast
  have v0: "cam0 = 0.9" "aam0 = 0.9"
    using z(1,2) g(1,2) by simp_all
  have pos: "0 < ice zero_layers_left_cell" by (simp add: g(5))
  have A: "Cell.capacity example_built_cell =
     Some (min (cathode_mass example_built_cell example_sized_heap * 0.9 * 150 / 1000)
               (anode_mass example_built_cell example_sized_heap * 0.9 * 300 / 1000) * 0.93)"
    using w(3) unfolding v f(3,4,5) by (simp only: f(6))
  have B: "2671704 / 4296875 \<le>
     min (cathode_mass example_built_cell example_sized_heap * 0.9 * 150 / 1000)
         (anode_mass example_built_cell example_sized_heap * 0.9 * 300 / 1000)"
    using w(4) example_nonneg le unfolding v f(3,4) by blast
  have C: "min (cathode_mass zero_layers_left_cell example_sized_heap * 0.9 * 150 / 1000)
       (anode_mass zero_layers_left_cell example_sized_heap * 0.9 * 300 / 1000) = 0"
    using z(3) pos unfolding v0 g(3,4) by blast
  show ?thesis
    using example_built example_nonneg le A B g(7) fin g(6) pos C by blast
qed

end
